theory Spec2Isabelle
  imports Main "HOL-Library.Word"
begin

unbundle bit_operations_syntax

section \<open>Auto Dark Titlebar: the data model\<close>

text \<open>
  The mod \<^verbatim>\<open>asteski-auto-dark-titlebar.wh.cpp\<close> keeps three pieces of process-wide
  state (the memoized probe pointer \<^verbatim>\<open>g_ShouldSystemUseDarkMode\<close>, the cached theme
  \<^verbatim>\<open>g_isDarkMode\<close> and the function-local static \<^verbatim>\<open>isExcluded\<close>) and otherwise
  only calls Win32. The embedding threads one record through every function: the part
  of the operating system the calls read or write, the three globals, and the list of
  API calls made so far (in call order), which is what "how many attribute-set calls",
  "is the lookup retried" and "is anything logged" are stated on.

  Machine types are words of the width the Win32 headers give them on x64.
\<close>

type_synonym hwnd = "64 word"      \<comment> \<open>HWND, 0 is the null handle\<close>
type_synonym hmodule = "64 word"   \<comment> \<open>HMODULE, 0 is null\<close>
type_synonym farproc = "64 word"   \<comment> \<open>a function address, 0 is nullptr\<close>
type_synonym dword = "32 word"     \<comment> \<open>DWORD, UINT\<close>
type_synonym long = "32 word"      \<comment> \<open>LONG, read signed where it matters\<close>
type_synonym win_bool = "32 word"  \<comment> \<open>BOOL is int: FALSE = 0, TRUE = 1, any non-zero is true\<close>
type_synonym hresult = "32 word"   \<comment> \<open>HRESULT, a signed 32-bit value\<close>
type_synonym wchar = "16 word"     \<comment> \<open>WCHAR\<close>
type_synonym lparam = "64 word"    \<comment> \<open>LPARAM, WPARAM, LRESULT\<close>

datatype dll_name = Uxtheme_dll | Win32u_dll

datatype gwl_index = GWL_STYLE | GWL_EXSTYLE

datatype hooked_function = Fn_DefWindowProcW | Fn_NtUserCreateWindowEx

text \<open>The formatted messages the source passes to \<^verbatim>\<open>Wh_Log\<close>, one constructor per call site.\<close>

datatype log_msg =
    Log_ProcessExcluded "wchar list"
  | Log_Applied win_bool hwnd
  | Log_NewWindow hwnd win_bool
  | Log_ThemeChanged dword bool
  | Log_Separator
  | Log_Initializing dword
  | Log_SkipExcluded dword
  | Log_InitialTheme dword bool
  | Log_HookDefWindowProcFailed dword
  | Log_HookDefWindowProcOk dword
  | Log_NoWin32u dword
  | Log_NoNtUserCreateWindowEx dword
  | Log_HookCreateFailed dword
  | Log_HookCreateOk dword
  | Log_InitComplete dword
  | Log_ApplyingExisting dword
  | Log_FinishedExisting dword
  | Log_Uninitializing dword
  | Log_CleanupComplete dword

text \<open>
  One event per call the mod makes into the operating system or the hosting framework.
  \<^verbatim>\<open>GetDesktopWindow\<close> and \<^verbatim>\<open>GetCurrentProcessId\<close> read constants of the process and
  are not recorded.
\<close>

datatype event =
    Ev_RegOpenKeyExW
  | Ev_RegQueryValueExW
  | Ev_RegCloseKey
  | Ev_GetModuleHandleW dll_name
  | Ev_GetProcAddress dll_name
  | Ev_ShouldSystemUseDarkMode
  | Ev_GetModuleFileNameW
  | Ev_IsWindow hwnd
  | Ev_GetWindowLongW hwnd gwl_index
  | Ev_GetAncestor hwnd
  | Ev_GetWindowThreadProcessId hwnd
  | Ev_DwmSetWindowAttribute hwnd win_bool
  | Ev_SetWindowPos hwnd
  | Ev_EnumWindows
  | Ev_SetFunctionHook hooked_function
  | Ev_Log log_msg

text \<open>
  What the windowing subsystem and the compositor hold for one live window.
  \<open>w_dwm_result\<close> is the HRESULT the compositor answers to an attribute-set call on this
  window; \<open>w_frame_changes\<close> counts the frame-change redraws \<^verbatim>\<open>SetWindowPos\<close> forced.
\<close>

record window =
  w_style :: long
  w_exstyle :: long
  w_parent :: hwnd
  w_thread_id :: dword
  w_process_id :: dword
  w_dwm_result :: hresult
  w_immersive_dark :: bool
  w_frame_changes :: nat

record state =
  \<comment> \<open>the operating system, as far as the mod reads or writes it\<close>
  reg_key_opens :: bool
  reg_AppsUseLightTheme :: "dword option"
  uxtheme_handle :: hmodule
  uxtheme_ordinal_138 :: farproc
  ShouldSystemUseDarkMode_result :: hresult
  win32u_handle :: hmodule
  win32u_NtUserCreateWindowEx :: farproc
  hook_install_ok :: "hooked_function \<Rightarrow> bool"
  hooks_installed :: "hooked_function \<Rightarrow> bool"
  exe_path :: "wchar list option"
  windows :: "hwnd \<Rightarrow> window option"
  top_level_windows :: "hwnd list"
  desktop_window :: hwnd
  current_process_id :: dword
  \<comment> \<open>the globals of the mod\<close>
  g_ShouldSystemUseDarkMode :: farproc
  g_isDarkMode :: win_bool
  isExcluded :: int
  \<comment> \<open>the API calls made so far\<close>
  trace :: "event list"

definition emit :: "event \<Rightarrow> state \<Rightarrow> state" where
  "emit e s = s\<lparr>trace := trace s @ [e]\<rparr>"

definition Wh_Log :: "log_msg \<Rightarrow> state \<Rightarrow> state" where
  "Wh_Log m s = emit (Ev_Log m) s"

text \<open>How often an event occurs in a trace.\<close>

definition calls :: "event \<Rightarrow> event list \<Rightarrow> nat" where
  "calls e tr = length (filter (\<lambda>x. x = e) tr)"

section \<open>The theme oracle\<close>

text \<open>
  The registry primitives. \<open>reg_key_opens\<close> says whether \<^verbatim>\<open>RegOpenKeyExW\<close> on the
  Personalize key returns \<^verbatim>\<open>ERROR_SUCCESS\<close>; \<open>reg_AppsUseLightTheme\<close> is \<open>Some v\<close> when
  \<^verbatim>\<open>RegQueryValueExW\<close> returns \<^verbatim>\<open>ERROR_SUCCESS\<close> and leaves \<open>v\<close> in the DWORD buffer,
  \<open>None\<close> when it returns an error.
\<close>

definition RegOpenKeyExW :: "state \<Rightarrow> bool \<times> state" where
  "RegOpenKeyExW s = (reg_key_opens s, emit Ev_RegOpenKeyExW s)"

definition RegQueryValueExW :: "state \<Rightarrow> dword option \<times> state" where
  "RegQueryValueExW s = (reg_AppsUseLightTheme s, emit Ev_RegQueryValueExW s)"

definition RegCloseKey :: "state \<Rightarrow> state" where
  "RegCloseKey s = emit Ev_RegCloseKey s"

definition GetModuleHandleW :: "dll_name \<Rightarrow> state \<Rightarrow> hmodule \<times> state" where
  "GetModuleHandleW m s =
     ((case m of Uxtheme_dll \<Rightarrow> uxtheme_handle s | Win32u_dll \<Rightarrow> win32u_handle s),
      emit (Ev_GetModuleHandleW m) s)"

text \<open>
  \<^verbatim>\<open>GetProcAddress\<close> for the one symbol the mod asks each module for: ordinal 138 of
  uxtheme.dll, \<^verbatim>\<open>NtUserCreateWindowEx\<close> of win32u.dll.
\<close>

definition GetProcAddress :: "dll_name \<Rightarrow> state \<Rightarrow> farproc \<times> state" where
  "GetProcAddress m s =
     ((case m of Uxtheme_dll \<Rightarrow> uxtheme_ordinal_138 s
              | Win32u_dll \<Rightarrow> win32u_NtUserCreateWindowEx s),
      emit (Ev_GetProcAddress m) s)"

text \<open>Calling through the memoized pointer: the probe answers with the system's current mode.\<close>

definition call_ShouldSystemUseDarkMode :: "state \<Rightarrow> hresult \<times> state" where
  "call_ShouldSystemUseDarkMode s =
     (ShouldSystemUseDarkMode_result s, emit Ev_ShouldSystemUseDarkMode s)"

text \<open>The C++ conversion of a comparison result to BOOL.\<close>

definition bool_to_BOOL :: "bool \<Rightarrow> win_bool" where
  "bool_to_BOOL b = (if b then 1 else 0)"

text \<open>
  The registry block of \<^verbatim>\<open>IsSystemDarkMode\<close> (source lines 48 to 62): \<open>Some value\<close> when
  both the open and the query succeed, \<open>None\<close> when either fails. The key is closed on
  both paths after a successful open.
\<close>

definition read_AppsUseLightTheme :: "state \<Rightarrow> dword option \<times> state" where
  "read_AppsUseLightTheme s =
     (case RegOpenKeyExW s of
        (True, s1) \<Rightarrow>
          (case RegQueryValueExW s1 of
             (Some v, s2) \<Rightarrow> (Some v, RegCloseKey s2)
           | (None, s2) \<Rightarrow> (None, RegCloseKey s2))
      | (False, s1) \<Rightarrow> (None, s1))"

text \<open>
  The resolve-on-first-use block (source lines 65 to 72): entered only while the global
  pointer is null; the global is assigned only when the module handle is non-null, and
  then with whatever \<^verbatim>\<open>GetProcAddress\<close> returned.
\<close>

definition resolve_ShouldSystemUseDarkMode :: "state \<Rightarrow> state" where
  "resolve_ShouldSystemUseDarkMode s =
     (if g_ShouldSystemUseDarkMode s = 0 then
        (case GetModuleHandleW Uxtheme_dll s of
           (hUxtheme, s1) \<Rightarrow>
             if hUxtheme \<noteq> 0 then
               (case GetProcAddress Uxtheme_dll s1 of
                  (p, s2) \<Rightarrow> s2\<lparr>g_ShouldSystemUseDarkMode := p\<rparr>)
             else s1)
      else s)"

definition IsSystemDarkMode :: "state \<Rightarrow> win_bool \<times> state" where
  "IsSystemDarkMode s =
     (case read_AppsUseLightTheme s of
        (Some v, s1) \<Rightarrow> (bool_to_BOOL (v = 0), s1)
      | (None, s1) \<Rightarrow>
          (let s2 = resolve_ShouldSystemUseDarkMode s1 in
           if g_ShouldSystemUseDarkMode s2 \<noteq> 0 then
             (case call_ShouldSystemUseDarkMode s2 of
                (hr, s3) \<Rightarrow> (bool_to_BOOL (hr \<noteq> 0), s3))
           else (0, s2)))"

section \<open>The process-exclusion gate\<close>

definition MAX_PATH :: nat where
  "MAX_PATH = 260"

text \<open>
  \<open>exe_path\<close> is \<open>None\<close> when the query for the executable's path fails. On success
  \<^verbatim>\<open>GetModuleFileNameW\<close> returns the number of characters copied, not counting the
  terminator; a path that does not fit is cut to \<open>MAX_PATH - 1\<close> characters and the
  buffer size is returned.
\<close>

definition GetModuleFileNameW :: "state \<Rightarrow> (nat \<times> wchar list) \<times> state" where
  "GetModuleFileNameW s =
     ((case exe_path s of
         None \<Rightarrow> (0, [])
       | Some p \<Rightarrow> if length p < MAX_PATH then (length p, p)
                   else (MAX_PATH, take (MAX_PATH - 1) p)),
      emit Ev_GetModuleFileNameW s)"

text \<open>A buffer read as a C string ends at its first zero character.\<close>

definition c_str :: "wchar list \<Rightarrow> wchar list" where
  "c_str buf = takeWhile (\<lambda>c. c \<noteq> 0) buf"

text \<open>\<^verbatim>\<open>wcsrchr\<close>: the suffix that starts at the last occurrence, \<open>None\<close> for a null result.\<close>

fun wcsrchr :: "wchar list \<Rightarrow> wchar \<Rightarrow> wchar list option" where
  "wcsrchr [] c = None"
| "wcsrchr (x # xs) c =
     (case wcsrchr xs c of
        Some r \<Rightarrow> Some r
      | None \<Rightarrow> if x = c then Some (x # xs) else None)"

text \<open>\<^verbatim>\<open>towlower\<close> in the "C" locale, the locale a process starts in: only A to Z change.\<close>

definition towlower :: "wchar \<Rightarrow> wchar" where
  "towlower c = (if 0x41 \<le> c \<and> c \<le> 0x5A then c + 0x20 else c)"

definition wide :: "string \<Rightarrow> wchar list" where
  "wide str = map of_char str"

definition backslash :: wchar where
  "backslash = 0x5C"

definition excludedProcesses :: "wchar list list" where
  "excludedProcesses = [wide ''systemsettings.exe'', wide ''applicationframehost.exe'']"

text \<open>The scan of the null-terminated denylist: \<^verbatim>\<open>wcscmp(...) == 0\<close> is equality of the strings.\<close>

fun matches_excluded :: "wchar list \<Rightarrow> wchar list list \<Rightarrow> bool" where
  "matches_excluded fileName [] = False"
| "matches_excluded fileName (e # es) =
     (if fileName = e then True else matches_excluded fileName es)"

text \<open>
  The base name as the source computes it: after the last backslash when there is one,
  the whole path otherwise, lower-cased in place.
\<close>

definition base_name_lower :: "wchar list \<Rightarrow> wchar list" where
  "base_name_lower exePath =
     map towlower
       (case wcsrchr (c_str exePath) backslash of
          Some r \<Rightarrow> tl r
        | None \<Rightarrow> c_str exePath)"

text \<open>
  \<^verbatim>\<open>IsProcessExcluded\<close> returns a BOOL that every caller only tests; the model returns
  the truth value. The static \<open>isExcluded\<close> is \<open>-1\<close> before the first call.
\<close>

definition IsProcessExcluded :: "state \<Rightarrow> bool \<times> state" where
  "IsProcessExcluded s =
     (if isExcluded s \<noteq> - 1 then (isExcluded s = 1, s)
      else
        (case GetModuleFileNameW s of
           ((n, exePath), s1) \<Rightarrow>
             if n = 0 then (False, s1\<lparr>isExcluded := 0\<rparr>)
             else
               (let fileName = base_name_lower exePath in
                if matches_excluded fileName excludedProcesses
                then (True, (Wh_Log (Log_ProcessExcluded fileName) s1)\<lparr>isExcluded := 1\<rparr>)
                else (False, s1\<lparr>isExcluded := 0\<rparr>))))"

section \<open>The eligibility filter and the styling applicator\<close>

text \<open>Window style bits and message numbers, with the values of the Windows SDK headers.\<close>

definition WS_CAPTION :: long where
  "WS_CAPTION = 0x00C00000"

definition WS_CHILD :: long where
  "WS_CHILD = 0x40000000"

definition WS_EX_TOOLWINDOW :: long where
  "WS_EX_TOOLWINDOW = 0x00000080"

definition WM_SETTINGCHANGE :: dword where
  "WM_SETTINGCHANGE = 0x001A"

definition WM_DWMCOLORIZATIONCOLORCHANGED :: dword where
  "WM_DWMCOLORIZATIONCOLORCHANGED = 0x0320"

definition E_HANDLE :: hresult where
  "E_HANDLE = 0x80070006"

text \<open>The macro \<^verbatim>\<open>SUCCEEDED(hr)\<close>: the HRESULT read as a signed value is not negative.\<close>

definition SUCCEEDED :: "hresult \<Rightarrow> bool" where
  "SUCCEEDED hr = (0 \<le> sint hr)"

definition IsWindow :: "hwnd \<Rightarrow> state \<Rightarrow> bool \<times> state" where
  "IsWindow h s = (windows s h \<noteq> None, emit (Ev_IsWindow h) s)"

text \<open>\<^verbatim>\<open>GetWindowLongW\<close> answers 0 for a handle that is not a window.\<close>

definition GetWindowLongW :: "hwnd \<Rightarrow> gwl_index \<Rightarrow> state \<Rightarrow> long \<times> state" where
  "GetWindowLongW h i s =
     ((case windows s h of
         None \<Rightarrow> 0
       | Some w \<Rightarrow> (case i of GWL_STYLE \<Rightarrow> w_style w | GWL_EXSTYLE \<Rightarrow> w_exstyle w)),
      emit (Ev_GetWindowLongW h i) s)"

text \<open>
  Setting attribute 20 (\<^verbatim>\<open>DWMWA_USE_IMMERSIVE_DARK_MODE\<close>) of a window: the compositor
  answers with the window's \<open>w_dwm_result\<close> and stores the value only when that is a
  success code; a handle that is not a window gets \<^verbatim>\<open>E_HANDLE\<close>.
\<close>

definition DwmSetWindowAttribute :: "hwnd \<Rightarrow> win_bool \<Rightarrow> state \<Rightarrow> hresult \<times> state" where
  "DwmSetWindowAttribute h v s =
     (let s1 = emit (Ev_DwmSetWindowAttribute h v) s in
      case windows s1 h of
        None \<Rightarrow> (E_HANDLE, s1)
      | Some w \<Rightarrow>
          (w_dwm_result w,
           if SUCCEEDED (w_dwm_result w)
           then s1\<lparr>windows := (windows s1)(h \<mapsto> w\<lparr>w_immersive_dark := (v \<noteq> 0)\<rparr>)\<rparr>
           else s1))"

text \<open>
  \<^verbatim>\<open>SetWindowPos\<close> with \<^verbatim>\<open>SWP_FRAMECHANGED | SWP_NOMOVE | SWP_NOSIZE | SWP_NOZORDER |
  SWP_NOOWNERZORDER\<close>: position, size and order stay; the frame of a live window is
  redrawn once. The source ignores the return value.
\<close>

definition SetWindowPos :: "hwnd \<Rightarrow> state \<Rightarrow> state" where
  "SetWindowPos h s =
     (let s1 = emit (Ev_SetWindowPos h) s in
      case windows s1 h of
        None \<Rightarrow> s1
      | Some w \<Rightarrow>
          s1\<lparr>windows := (windows s1)(h \<mapsto> w\<lparr>w_frame_changes := Suc (w_frame_changes w)\<rparr>)\<rparr>)"

text \<open>\<^verbatim>\<open>IsWindowEligible\<close> returns a BOOL that every caller only tests.\<close>

definition IsWindowEligible :: "hwnd \<Rightarrow> state \<Rightarrow> bool \<times> state" where
  "IsWindowEligible hWnd s =
     (if hWnd = 0 then (False, s)
      else
        (case IsWindow hWnd s of
           (live, s1) \<Rightarrow>
             if \<not> live then (False, s1)
             else
               (case GetWindowLongW hWnd GWL_STYLE s1 of
                  (style, s2) \<Rightarrow>
                    (case GetWindowLongW hWnd GWL_EXSTYLE s2 of
                       (styleEx, s3) \<Rightarrow>
                         if style AND WS_CAPTION = 0 then (False, s3)
                         else if styleEx AND WS_EX_TOOLWINDOW \<noteq> 0 then (False, s3)
                         else if style AND WS_CHILD \<noteq> 0 then (False, s3)
                         else (True, s3)))))"

definition ApplyDarkMode :: "hwnd \<Rightarrow> win_bool \<Rightarrow> state \<Rightarrow> state" where
  "ApplyDarkMode hWnd useDarkMode s =
     (case IsWindowEligible hWnd s of
        (eligible, s1) \<Rightarrow>
          if \<not> eligible then s1
          else
            (let v = (if useDarkMode \<noteq> 0 then 1 else 0) in
             case DwmSetWindowAttribute hWnd v s1 of
               (hr, s2) \<Rightarrow>
                 if SUCCEEDED hr
                 then Wh_Log (Log_Applied useDarkMode hWnd) (SetWindowPos hWnd s2)
                 else s2))"

definition NewWindowShown :: "hwnd \<Rightarrow> state \<Rightarrow> state" where
  "NewWindowShown hWnd s =
     (case IsProcessExcluded s of
        (excluded, s1) \<Rightarrow>
          if excluded then s1
          else if hWnd = 0 then s1
          else
            (case IsWindow hWnd s1 of
               (live, s2) \<Rightarrow>
                 if \<not> live then s2
                 else
                   (case IsWindowEligible hWnd s2 of
                      (eligible, s3) \<Rightarrow>
                        if \<not> eligible then s3
                        else ApplyDarkMode hWnd (g_isDarkMode s3)
                               (Wh_Log (Log_NewWindow hWnd (g_isDarkMode s3)) s3))))"

section \<open>Enumerating the windows of the process\<close>

text \<open>\<^verbatim>\<open>GetAncestor(hWnd, GA_PARENT)\<close>: null for a handle that is not a window.\<close>

definition GetAncestor :: "hwnd \<Rightarrow> state \<Rightarrow> hwnd \<times> state" where
  "GetAncestor h s =
     ((case windows s h of None \<Rightarrow> 0 | Some w \<Rightarrow> w_parent w), emit (Ev_GetAncestor h) s)"

text \<open>
  \<^verbatim>\<open>GetWindowThreadProcessId\<close> returns the creating thread's id and writes the process
  id through the pointer; for a handle that is not a window it returns 0 and leaves the
  variable (passed here as \<open>pid0\<close>) as it was.
\<close>

definition GetWindowThreadProcessId :: "hwnd \<Rightarrow> dword \<Rightarrow> state \<Rightarrow> (dword \<times> dword) \<times> state" where
  "GetWindowThreadProcessId h pid0 s =
     ((case windows s h of
         None \<Rightarrow> (0, pid0)
       | Some w \<Rightarrow> (w_thread_id w, w_process_id w)),
      emit (Ev_GetWindowThreadProcessId h) s)"

text \<open>The callback's result is a BOOL; it is the constant \<^verbatim>\<open>TRUE\<close> on every path.\<close>

definition EnumWindowsProc :: "hwnd \<Rightarrow> lparam \<Rightarrow> state \<Rightarrow> win_bool \<times> state" where
  "EnumWindowsProc hWnd lParam s =
     (let useDarkMode = (ucast lParam :: win_bool) in
      case GetAncestor hWnd s of
        (hParentWnd, s1) \<Rightarrow>
          if hParentWnd \<noteq> 0 \<and> hParentWnd \<noteq> desktop_window s1 then (1, s1)
          else
            (case GetWindowThreadProcessId hWnd 0 s1 of
               ((tid, dwProcessId), s2) \<Rightarrow>
                 if tid = 0 \<or> dwProcessId \<noteq> current_process_id s2 then (1, s2)
                 else (1, ApplyDarkMode hWnd useDarkMode s2)))"

text \<open>
  \<^verbatim>\<open>EnumWindows\<close> walks the top-level windows of the screen as they are when it is
  called, and stops early when the callback returns \<^verbatim>\<open>FALSE\<close>.
\<close>

fun enum_loop :: "(hwnd \<Rightarrow> lparam \<Rightarrow> state \<Rightarrow> win_bool \<times> state) \<Rightarrow> lparam \<Rightarrow> hwnd list \<Rightarrow> state \<Rightarrow> state" where
  "enum_loop cb lParam [] s = s"
| "enum_loop cb lParam (h # hs) s =
     (case cb h lParam s of
        (continue, s1) \<Rightarrow> if continue \<noteq> 0 then enum_loop cb lParam hs s1 else s1)"

definition EnumWindows :: "(hwnd \<Rightarrow> lparam \<Rightarrow> state \<Rightarrow> win_bool \<times> state) \<Rightarrow> lparam \<Rightarrow> state \<Rightarrow> state" where
  "EnumWindows cb lParam s = enum_loop cb lParam (top_level_windows s) (emit Ev_EnumWindows s)"

text \<open>The cast \<^verbatim>\<open>(LPARAM)useDarkMode\<close> sign-extends the int to pointer width.\<close>

definition ApplyToAllWindows :: "win_bool \<Rightarrow> state \<Rightarrow> state" where
  "ApplyToAllWindows useDarkMode s = EnumWindows EnumWindowsProc (scast useDarkMode) s"

section \<open>The interception layer and the lifecycle callbacks\<close>

text \<open>
  The original \<^verbatim>\<open>DefWindowProcW\<close> and \<^verbatim>\<open>NtUserCreateWindowEx\<close> are code of the
  operating system. Each hook takes the original it delegates to as its first argument:
  any function of the call's arguments and the state, free to change the whole state
  (creating a window sends messages, which may run the hooks again).
\<close>

type_synonym DefWindowProc_t = "hwnd \<Rightarrow> dword \<Rightarrow> lparam \<Rightarrow> lparam \<Rightarrow> state \<Rightarrow> lparam \<times> state"

text \<open>
  The block of \<^verbatim>\<open>DefWindowProc_hook\<close> that runs before the delegation (source lines
  212 to 224). The gate is called on every message; the theme is queried only when the
  gate passes and the message is one of the two theme-change notifications.
\<close>

definition theme_change_check :: "dword \<Rightarrow> state \<Rightarrow> state" where
  "theme_change_check Msg s =
     (case IsProcessExcluded s of
        (excluded, s1) \<Rightarrow>
          if \<not> excluded \<and> (Msg = WM_DWMCOLORIZATIONCOLORCHANGED \<or> Msg = WM_SETTINGCHANGE)
          then
            (case IsSystemDarkMode s1 of
               (newDarkMode, t) \<Rightarrow>
                 if newDarkMode \<noteq> g_isDarkMode t then
                   (let t1 = t\<lparr>g_isDarkMode := newDarkMode\<rparr>;
                        t2 = Wh_Log (Log_ThemeChanged (current_process_id t1)
                                       (newDarkMode \<noteq> 0)) t1
                    in ApplyToAllWindows (g_isDarkMode t2) t2)
                 else t)
          else s1)"

definition DefWindowProc_hook ::
    "DefWindowProc_t \<Rightarrow> hwnd \<Rightarrow> dword \<Rightarrow> lparam \<Rightarrow> lparam \<Rightarrow> state \<Rightarrow> lparam \<times> state" where
  "DefWindowProc_hook DefWindowProc_orig hWnd Msg wParam lParam s =
     DefWindowProc_orig hWnd Msg wParam lParam (theme_change_check Msg s)"

record create_args =
  dwExStyle :: dword
  pClassName :: "64 word"
  pWindowName :: "64 word"
  pWindowNameU :: "64 word"
  dwStyle :: dword
  arg_x :: long
  arg_y :: long
  nWidth :: long
  nHeight :: long
  hWndParent :: hwnd
  hMenu :: "64 word"
  hInstance :: "64 word"
  lpParam :: "64 word"
  dwShowMode :: dword
  dwUnknown1 :: dword
  dwUnknown2 :: dword
  qwUnknown3 :: "64 word"

type_synonym NtUserCreateWindowEx_t = "create_args \<Rightarrow> state \<Rightarrow> hwnd \<times> state"

definition NtUserCreateWindowEx_hook ::
    "NtUserCreateWindowEx_t \<Rightarrow> create_args \<Rightarrow> state \<Rightarrow> hwnd \<times> state" where
  "NtUserCreateWindowEx_hook NtUserCreateWindowEx_orig args s =
     (case NtUserCreateWindowEx_orig args s of
        (hWnd, s1) \<Rightarrow> (hWnd, if hWnd \<noteq> 0 then NewWindowShown hWnd s1 else s1))"

text \<open>
  \<^verbatim>\<open>Wh_SetFunctionHook\<close> of the hosting framework: \<open>hook_install_ok\<close> says whether the
  installation of a hook succeeds.
\<close>

definition Wh_SetFunctionHook :: "hooked_function \<Rightarrow> state \<Rightarrow> bool \<times> state" where
  "Wh_SetFunctionHook f s =
     (let s1 = emit (Ev_SetFunctionHook f) s in
      if hook_install_ok s1 f
      then (True, s1\<lparr>hooks_installed := (hooks_installed s1)(f := True)\<rparr>)
      else (False, s1))"

text \<open>The part of \<^verbatim>\<open>Wh_ModInit\<close> after the first hook (source lines 282 to 305).\<close>

definition hook_NtUserCreateWindowEx :: "state \<Rightarrow> bool \<times> state" where
  "hook_NtUserCreateWindowEx s =
     (let pid = current_process_id s in
      case GetModuleHandleW Win32u_dll s of
        (hWin32u, s1) \<Rightarrow>
          if hWin32u = 0 then (True, Wh_Log (Log_NoWin32u pid) s1)
          else
            (case GetProcAddress Win32u_dll s1 of
               (pNtUserCreateWindowEx, s2) \<Rightarrow>
                 if pNtUserCreateWindowEx = 0
                 then (True, Wh_Log (Log_NoNtUserCreateWindowEx pid) s2)
                 else
                   (case Wh_SetFunctionHook Fn_NtUserCreateWindowEx s2 of
                      (ok, s3) \<Rightarrow>
                        (True,
                         Wh_Log Log_Separator
                           (Wh_Log (Log_InitComplete pid)
                              (Wh_Log (if ok then Log_HookCreateOk pid
                                       else Log_HookCreateFailed pid) s3))))))"

definition Wh_ModInit :: "state \<Rightarrow> bool \<times> state" where
  "Wh_ModInit s =
     (let pid = current_process_id s;
          s0 = Wh_Log (Log_Initializing pid) (Wh_Log Log_Separator s)
      in
      case IsProcessExcluded s0 of
        (excluded, s1) \<Rightarrow>
          if excluded then (True, Wh_Log Log_Separator (Wh_Log (Log_SkipExcluded pid) s1))
          else
            (case IsSystemDarkMode s1 of
               (dark, s2) \<Rightarrow>
                 (let s3 = s2\<lparr>g_isDarkMode := dark\<rparr>;
                      s4 = Wh_Log (Log_InitialTheme pid (g_isDarkMode s3 \<noteq> 0)) s3
                  in
                  case Wh_SetFunctionHook Fn_DefWindowProcW s4 of
                    (ok, s5) \<Rightarrow>
                      hook_NtUserCreateWindowEx
                        (Wh_Log (if ok then Log_HookDefWindowProcOk pid
                                 else Log_HookDefWindowProcFailed pid) s5))))"

definition Wh_ModAfterInit :: "state \<Rightarrow> state" where
  "Wh_ModAfterInit s =
     (case IsProcessExcluded s of
        (excluded, s1) \<Rightarrow>
          if excluded then s1
          else
            (let pid = current_process_id s1 in
             Wh_Log (Log_FinishedExisting pid)
               (ApplyToAllWindows (g_isDarkMode s1) (Wh_Log (Log_ApplyingExisting pid) s1))))"

definition Wh_ModUninit :: "state \<Rightarrow> state" where
  "Wh_ModUninit s =
     (case IsProcessExcluded s of
        (excluded, s1) \<Rightarrow>
          if excluded then s1
          else
            (let pid = current_process_id s1 in
             Wh_Log (Log_CleanupComplete pid)
               (ApplyToAllWindows 0 (Wh_Log (Log_Uninitializing pid) s1))))"

section \<open>Observations on states and traces\<close>

text \<open>
  The definitions of this section do not model source functions: they name what the
  properties below talk about. Each is tied to the code by a lemma.
\<close>

definition emits :: "event list \<Rightarrow> state \<Rightarrow> state" where
  "emits es s = s\<lparr>trace := trace s @ es\<rparr>"

text \<open>The tests of \<^verbatim>\<open>IsWindowEligible\<close>, read off the state.\<close>

definition eligible :: "state \<Rightarrow> hwnd \<Rightarrow> bool" where
  "eligible s h =
     (h \<noteq> 0 \<and>
      (case windows s h of
         None \<Rightarrow> False
       | Some w \<Rightarrow> w_style w AND WS_CAPTION \<noteq> 0 \<and> w_exstyle w AND WS_EX_TOOLWINDOW = 0 \<and>
                   w_style w AND WS_CHILD = 0))"

definition eligibility_events :: "state \<Rightarrow> hwnd \<Rightarrow> event list" where
  "eligibility_events s h =
     (if h = 0 then []
      else if windows s h = None then [Ev_IsWindow h]
      else [Ev_IsWindow h, Ev_GetWindowLongW h GWL_STYLE, Ev_GetWindowLongW h GWL_EXSTYLE])"

definition dwm_ok :: "state \<Rightarrow> hwnd \<Rightarrow> bool" where
  "dwm_ok s h = (case windows s h of None \<Rightarrow> False | Some w \<Rightarrow> SUCCEEDED (w_dwm_result w))"

text \<open>A window after a successful \<^verbatim>\<open>ApplyDarkMode\<close>: the attribute stored, one more redraw.\<close>

definition styled_window :: "win_bool \<Rightarrow> window \<Rightarrow> window" where
  "styled_window b w = w\<lparr>w_immersive_dark := (b \<noteq> 0), w_frame_changes := Suc (w_frame_changes w)\<rparr>"

text \<open>
  The filter of \<^verbatim>\<open>EnumWindowsProc\<close>, read off the state: the handle is a window, its
  parent is absent or the desktop, the thread and process query succeeds (it returns
  the thread id, and 0 is its failure value) and names the current process.
\<close>

definition in_scope :: "state \<Rightarrow> hwnd \<Rightarrow> bool" where
  "in_scope s h =
     (case windows s h of
        None \<Rightarrow> False
      | Some w \<Rightarrow> (w_parent w = 0 \<or> w_parent w = desktop_window s) \<and> w_thread_id w \<noteq> 0 \<and>
                  w_process_id w = current_process_id s)"

definition filter_events :: "state \<Rightarrow> hwnd \<Rightarrow> event list" where
  "filter_events s h =
     (case windows s h of
        None \<Rightarrow> [Ev_GetAncestor h, Ev_GetWindowThreadProcessId h]
      | Some w \<Rightarrow>
          if w_parent w \<noteq> 0 \<and> w_parent w \<noteq> desktop_window s then [Ev_GetAncestor h]
          else [Ev_GetAncestor h, Ev_GetWindowThreadProcessId h])"

definition enum_step :: "lparam \<Rightarrow> hwnd \<Rightarrow> state \<Rightarrow> state" where
  "enum_step l h s = snd (EnumWindowsProc h l s)"

text \<open>How often the attribute was set on one window.\<close>

definition is_attr_set :: "hwnd \<Rightarrow> event \<Rightarrow> bool" where
  "is_attr_set h e = (case e of Ev_DwmSetWindowAttribute h' v \<Rightarrow> h' = h | _ \<Rightarrow> False)"

definition attr_set_calls :: "hwnd \<Rightarrow> event list \<Rightarrow> nat" where
  "attr_set_calls h tr = length (filter (is_attr_set h) tr)"

text \<open>
  The calls \<^verbatim>\<open>ApplyDarkMode\<close> makes on a window (the liveness and style queries, the
  attribute-set call, the redraw) and its log line. The two queries of the enumeration
  filter are not among them.
\<close>

definition touches :: "hwnd \<Rightarrow> event \<Rightarrow> bool" where
  "touches h e =
     (case e of
        Ev_IsWindow h' \<Rightarrow> h' = h
      | Ev_GetWindowLongW h' i \<Rightarrow> h' = h
      | Ev_DwmSetWindowAttribute h' v \<Rightarrow> h' = h
      | Ev_SetWindowPos h' \<Rightarrow> h' = h
      | Ev_Log m \<Rightarrow> (case m of Log_Applied b h' \<Rightarrow> h' = h | _ \<Rightarrow> False)
      | _ \<Rightarrow> False)"

definition touch_calls :: "hwnd \<Rightarrow> event list \<Rightarrow> nat" where
  "touch_calls h tr = length (filter (touches h) tr)"

definition is_log :: "event \<Rightarrow> bool" where
  "is_log e = (case e of Ev_Log m \<Rightarrow> True | _ \<Rightarrow> False)"

definition log_calls :: "event list \<Rightarrow> nat" where
  "log_calls tr = length (filter is_log tr)"

text \<open>Events that name a window: the ones the enumeration and the applicator produce.\<close>

definition is_window_event :: "event \<Rightarrow> bool" where
  "is_window_event e =
     (case e of
        Ev_IsWindow h \<Rightarrow> True
      | Ev_GetWindowLongW h i \<Rightarrow> True
      | Ev_GetAncestor h \<Rightarrow> True
      | Ev_GetWindowThreadProcessId h \<Rightarrow> True
      | Ev_DwmSetWindowAttribute h v \<Rightarrow> True
      | Ev_SetWindowPos h \<Rightarrow> True
      | Ev_Log m \<Rightarrow> True
      | _ \<Rightarrow> False)"

text \<open>A window without the two fields the applicator writes.\<close>

definition window_core :: "window \<Rightarrow> window" where
  "window_core w = w\<lparr>w_immersive_dark := False, w_frame_changes := 0\<rparr>"

text \<open>The outcome of the registry block, and what the fallback calls through.\<close>

definition registry_read :: "state \<Rightarrow> dword option" where
  "registry_read s = (if reg_key_opens s then reg_AppsUseLightTheme s else None)"

definition registry_events :: "state \<Rightarrow> event list" where
  "registry_events s =
     (if reg_key_opens s then [Ev_RegOpenKeyExW, Ev_RegQueryValueExW, Ev_RegCloseKey]
      else [Ev_RegOpenKeyExW])"

definition probe_pointer :: "state \<Rightarrow> farproc" where
  "probe_pointer s =
     (if g_ShouldSystemUseDarkMode s \<noteq> 0 then g_ShouldSystemUseDarkMode s
      else if uxtheme_handle s = 0 then 0 else uxtheme_ordinal_138 s)"

text \<open>The decision a first call of \<^verbatim>\<open>IsProcessExcluded\<close> takes.\<close>

definition exclusion_decision :: "state \<Rightarrow> bool" where
  "exclusion_decision s =
     (case fst (GetModuleFileNameW s) of
        (n, exePath) \<Rightarrow> n \<noteq> 0 \<and> matches_excluded (base_name_lower exePath) excludedProcesses)"

text \<open>How often the module of the probe has been looked up so far.\<close>

definition probe_lookups :: "state \<Rightarrow> nat" where
  "probe_lookups s = calls (Ev_GetModuleHandleW Uxtheme_dll) (trace s)"

subsection \<open>A process to run the functions on\<close>

text \<open>
  Notepad with a main window \<open>0x1001\<close>, a tool window, a child, a window of another
  process, a window the compositor refuses, a caption-less popup and a stale handle
  \<open>0x1007\<close> that is still enumerated.
\<close>

definition example_window :: window where
  "example_window =
     \<lparr>w_style = 0x14CF0000, w_exstyle = 0x00000100, w_parent = 0x10010, w_thread_id = 77,
      w_process_id = 4242, w_dwm_result = 0, w_immersive_dark = False, w_frame_changes = 0\<rparr>"

definition example_windows :: "hwnd \<Rightarrow> window option" where
  "example_windows =
     map_of
       [(0x1001, example_window),
        (0x1002, example_window\<lparr>w_exstyle := 0x00000180\<rparr>),
        (0x1003, example_window\<lparr>w_style := 0x54C00000, w_parent := 0x1001\<rparr>),
        (0x1004, example_window\<lparr>w_thread_id := 12, w_process_id := 999\<rparr>),
        (0x1005, example_window\<lparr>w_dwm_result := 0x80004005\<rparr>),
        (0x1006, example_window\<lparr>w_style := 0x94000000\<rparr>)]"

definition example_path :: "wchar list" where
  "example_path =
     wide ''C:'' @ [backslash] @ wide ''Windows'' @ [backslash] @ wide ''Notepad.exe''"

definition example_state :: state where
  "example_state =
     \<lparr>reg_key_opens = True, reg_AppsUseLightTheme = Some 0,
      uxtheme_handle = 0, uxtheme_ordinal_138 = 0, ShouldSystemUseDarkMode_result = 0,
      win32u_handle = 0x7FFA00000000, win32u_NtUserCreateWindowEx = 0x7FFA00001230,
      hook_install_ok = (\<lambda>f. True), hooks_installed = (\<lambda>f. False),
      exe_path = Some example_path,
      windows = example_windows,
      top_level_windows = [0x1001, 0x1002, 0x1004, 0x1005, 0x1006, 0x1007],
      desktop_window = 0x10010, current_process_id = 4242,
      g_ShouldSystemUseDarkMode = 0, g_isDarkMode = 0, isExcluded = - 1, trace = []\<rparr>"

text \<open>An original handler and an original creation primitive to delegate to.\<close>

definition example_DefWindowProc :: DefWindowProc_t where
  "example_DefWindowProc hWnd Msg wParam lParam s = (wParam + lParam, s)"

definition example_args :: create_args where
  "example_args =
     \<lparr>dwExStyle = 0x100, pClassName = 0x2000, pWindowName = 0x2100, pWindowNameU = 0,
      dwStyle = 0x14CF0000, arg_x = 10, arg_y = 10, nWidth = 640, nHeight = 480,
      hWndParent = 0, hMenu = 0, hInstance = 0x400000, lpParam = 0, dwShowMode = 1,
      dwUnknown1 = 0, dwUnknown2 = 0, qwUnknown3 = 0\<rparr>"

definition example_create :: NtUserCreateWindowEx_t where
  "example_create args s =
     (0x1008,
      s\<lparr>windows := (windows s)(0x1008 \<mapsto>
            example_window\<lparr>w_style := dwStyle args, w_exstyle := dwExStyle args\<rparr>),
        top_level_windows := 0x1008 # top_level_windows s\<rparr>)"

subsection \<open>The caption region, in the words of the specification\<close>

text \<open>
  This definition follows the specification, not the source: a titlebar-bearing window
  is one whose style includes a caption region. In the Windows SDK the caption (title
  bar) style \<^verbatim>\<open>WS_CAPTION\<close> is the two bits \<^verbatim>\<open>WS_BORDER | WS_DLGFRAME\<close> together; either
  bit alone is a thin border or a dialog frame, and such a window has no title bar.
\<close>

definition WS_BORDER :: long where
  "WS_BORDER = 0x00800000"

definition WS_DLGFRAME :: long where
  "WS_DLGFRAME = 0x00400000"

definition has_caption_region :: "long \<Rightarrow> bool" where
  "has_caption_region style = (style AND WS_CAPTION = WS_CAPTION)"

text \<open>
  The process of \<open>example_state\<close> with two more live top-level windows of its own: a
  popup with a thin border only (\<open>0x1009\<close>, style \<^verbatim>\<open>WS_POPUP | WS_BORDER\<close>) and a popup
  with a dialog frame only (\<open>0x100A\<close>, style \<^verbatim>\<open>WS_POPUP | WS_DLGFRAME\<close>).
\<close>

definition border_only_state :: state where
  "border_only_state =
     example_state
       \<lparr>windows := (windows example_state)
          (0x1009 \<mapsto> example_window\<lparr>w_style := 0x80800000\<rparr>,
           0x100A \<mapsto> example_window\<lparr>w_style := 0x80400000\<rparr>),
        top_level_windows := [0x1009, 0x100A] @ top_level_windows example_state\<rparr>"

section \<open>Symbolic execution of the functions\<close>

lemma ucast_scast_BOOL: "(ucast (scast (b :: win_bool) :: lparam) :: win_bool) = b"
  by (rule bit_word_eqI) (auto simp add: bit_simps)

lemma emits_fields [simp]:
  "windows (emits es s) = windows s"
  "desktop_window (emits es s) = desktop_window s"
  "current_process_id (emits es s) = current_process_id s"
  "top_level_windows (emits es s) = top_level_windows s"
  "g_isDarkMode (emits es s) = g_isDarkMode s"
  "g_ShouldSystemUseDarkMode (emits es s) = g_ShouldSystemUseDarkMode s"
  "isExcluded (emits es s) = isExcluded s"
  "exe_path (emits es s) = exe_path s"
  "trace (emits es s) = trace s @ es"
  by (simp_all add: emits_def)

lemma emits_observers [simp]:
  "eligible (emits es s) = eligible s"
  "dwm_ok (emits es s) = dwm_ok s"
  "in_scope (emits es s) = in_scope s"
  "eligibility_events (emits es s) = eligibility_events s"
  "registry_read (emits es s) = registry_read s"
  "registry_events (emits es s) = registry_events s"
  "probe_pointer (emits es s) = probe_pointer s"
  "exclusion_decision (emits es s) = exclusion_decision s"
  by (simp_all add: eligible_def dwm_ok_def in_scope_def eligibility_events_def fun_eq_iff
      registry_read_def registry_events_def probe_pointer_def exclusion_decision_def
      GetModuleFileNameW_def emits_def cong: option.case_cong)

lemma emits_emits [simp]: "emits es (emits es' s) = emits (es' @ es) s"
  by (simp add: emits_def)

lemma emit_emits: "emit e s = emits [e] s"
  by (simp add: emit_def emits_def)

lemma Wh_Log_emits: "Wh_Log m s = emits [Ev_Log m] s"
  by (simp add: Wh_Log_def emit_emits)

subsection \<open>Counting events\<close>

lemma count_list_distinct:
  "distinct xs \<Longrightarrow> count_list xs x = (if x \<in> set xs then 1 else 0)"
  by (induction xs) auto

lemma calls_Nil [simp]: "calls e [] = 0"
  by (simp add: calls_def)

lemma calls_Cons [simp]: "calls e (x # xs) = (if x = e then 1 else 0) + calls e xs"
  by (simp add: calls_def)

lemma calls_append [simp]: "calls e (xs @ ys) = calls e xs + calls e ys"
  by (simp add: calls_def)

lemma attr_set_calls_Nil [simp]: "attr_set_calls h [] = 0"
  by (simp add: attr_set_calls_def)

lemma attr_set_calls_append [simp]:
  "attr_set_calls h (xs @ ys) = attr_set_calls h xs + attr_set_calls h ys"
  by (simp add: attr_set_calls_def)

lemma touch_calls_Nil [simp]: "touch_calls h [] = 0"
  by (simp add: touch_calls_def)

lemma touch_calls_append [simp]:
  "touch_calls h (xs @ ys) = touch_calls h xs + touch_calls h ys"
  by (simp add: touch_calls_def)

lemma log_calls_Nil [simp]: "log_calls [] = 0"
  by (simp add: log_calls_def)

lemma log_calls_append [simp]: "log_calls (xs @ ys) = log_calls xs + log_calls ys"
  by (simp add: log_calls_def)

lemma attr_set_calls_filter_events [simp]: "attr_set_calls h (filter_events s h') = 0"
  by (simp add: attr_set_calls_def filter_events_def is_attr_set_def split: option.splits)

lemma touch_calls_filter_events [simp]: "touch_calls h (filter_events s h') = 0"
  by (simp add: touch_calls_def filter_events_def touches_def split: option.splits)

lemma calls_filter_events [simp]: "\<not> is_window_event e \<Longrightarrow> calls e (filter_events s h) = 0"
  by (auto simp add: filter_events_def is_window_event_def split: option.splits)

lemma attr_set_calls_eligibility_events [simp]: "attr_set_calls h (eligibility_events s h') = 0"
  by (simp add: attr_set_calls_def eligibility_events_def is_attr_set_def)

lemma log_calls_eligibility_events [simp]: "log_calls (eligibility_events s h) = 0"
  by (simp add: log_calls_def eligibility_events_def is_log_def)

lemma calls_eligibility_events [simp]:
  "\<not> is_window_event e \<Longrightarrow> calls e (eligibility_events s h) = 0"
  by (auto simp add: eligibility_events_def is_window_event_def)

lemma attr_set_calls_registry_events [simp]: "attr_set_calls h (registry_events s) = 0"
  by (simp add: attr_set_calls_def registry_events_def is_attr_set_def)

subsection \<open>The eligibility filter and the applicator\<close>

lemma IsWindowEligible_eq:
  "IsWindowEligible h s = (eligible s h, emits (eligibility_events s h) s)"
  by (auto simp add: IsWindowEligible_def eligible_def eligibility_events_def emits_def
      IsWindow_def GetWindowLongW_def emit_def split: option.splits)

lemma ApplyDarkMode_eq:
  "ApplyDarkMode h b s =
     (if \<not> eligible s h then emits (eligibility_events s h) s
      else if dwm_ok s h then
        s\<lparr>windows := (windows s)(h \<mapsto> styled_window b (the (windows s h))),
          trace := trace s @ eligibility_events s h @
                   [Ev_DwmSetWindowAttribute h (if b \<noteq> 0 then 1 else 0), Ev_SetWindowPos h,
                    Ev_Log (Log_Applied b h)]\<rparr>
      else emits (eligibility_events s h @ [Ev_DwmSetWindowAttribute h (if b \<noteq> 0 then 1 else 0)]) s)"
  by (auto simp add: ApplyDarkMode_def IsWindowEligible_eq eligible_def dwm_ok_def emits_def
      DwmSetWindowAttribute_def SetWindowPos_def Wh_Log_def emit_def Let_def styled_window_def
      split: option.splits)

lemma windows_ApplyDarkMode:
  "windows (ApplyDarkMode h b s) =
     (if eligible s h \<and> dwm_ok s h
      then (windows s)(h \<mapsto> styled_window b (the (windows s h))) else windows s)"
  by (simp add: ApplyDarkMode_eq)

lemma ApplyDarkMode_fields [simp]:
  "desktop_window (ApplyDarkMode h b s) = desktop_window s"
  "current_process_id (ApplyDarkMode h b s) = current_process_id s"
  "top_level_windows (ApplyDarkMode h b s) = top_level_windows s"
  "g_isDarkMode (ApplyDarkMode h b s) = g_isDarkMode s"
  "g_ShouldSystemUseDarkMode (ApplyDarkMode h b s) = g_ShouldSystemUseDarkMode s"
  "isExcluded (ApplyDarkMode h b s) = isExcluded s"
  by (simp_all add: ApplyDarkMode_eq)

lemma ApplyDarkMode_observers [simp]:
  "eligible (ApplyDarkMode h b s) = eligible s"
  "dwm_ok (ApplyDarkMode h b s) = dwm_ok s"
  "in_scope (ApplyDarkMode h b s) = in_scope s"
  by (auto simp add: fun_eq_iff eligible_def dwm_ok_def in_scope_def windows_ApplyDarkMode
      styled_window_def split: option.splits)

lemma attr_set_calls_ApplyDarkMode:
  "attr_set_calls h (trace (ApplyDarkMode h' b s)) =
     attr_set_calls h (trace s) + (if h = h' \<and> eligible s h' then 1 else 0)"
  by (simp add: ApplyDarkMode_eq) (simp add: attr_set_calls_def is_attr_set_def)

lemma touch_calls_ApplyDarkMode:
  "h \<noteq> h' \<Longrightarrow> touch_calls h (trace (ApplyDarkMode h' b s)) = touch_calls h (trace s)"
  by (simp add: ApplyDarkMode_eq) (simp add: touch_calls_def touches_def eligibility_events_def)

lemma calls_ApplyDarkMode:
  "\<not> is_window_event e \<Longrightarrow> calls e (trace (ApplyDarkMode h b s)) = calls e (trace s)"
  by (simp add: ApplyDarkMode_eq) (auto simp add: is_window_event_def)

subsection \<open>The enumeration\<close>

lemma EnumWindowsProc_eq:
  "EnumWindowsProc h l s =
     (1, if in_scope s h then ApplyDarkMode h (ucast l) (emits (filter_events s h) s)
         else emits (filter_events s h) s)"
  by (auto simp add: EnumWindowsProc_def GetAncestor_def GetWindowThreadProcessId_def emit_def
      emits_def in_scope_def filter_events_def Let_def split: option.splits)

lemma enum_loop_fold: "enum_loop EnumWindowsProc l hs s = fold (enum_step l) hs s"
  by (induction hs arbitrary: s) (simp_all add: enum_step_def EnumWindowsProc_eq)

lemma ApplyToAllWindows_fold:
  "ApplyToAllWindows b s = fold (enum_step (scast b)) (top_level_windows s) (emits [Ev_EnumWindows] s)"
  by (simp add: ApplyToAllWindows_def EnumWindows_def enum_loop_fold emit_emits)

lemma enum_step_eq:
  "enum_step l h s =
     (if in_scope s h then ApplyDarkMode h (ucast l) (emits (filter_events s h) s)
      else emits (filter_events s h) s)"
  by (simp add: enum_step_def EnumWindowsProc_eq)

lemma enum_step_fields [simp]:
  "desktop_window (enum_step l h s) = desktop_window s"
  "current_process_id (enum_step l h s) = current_process_id s"
  "top_level_windows (enum_step l h s) = top_level_windows s"
  "g_isDarkMode (enum_step l h s) = g_isDarkMode s"
  "g_ShouldSystemUseDarkMode (enum_step l h s) = g_ShouldSystemUseDarkMode s"
  "isExcluded (enum_step l h s) = isExcluded s"
  "eligible (enum_step l h s) = eligible s"
  "dwm_ok (enum_step l h s) = dwm_ok s"
  "in_scope (enum_step l h s) = in_scope s"
  by (simp_all add: enum_step_eq)

lemma fold_enum_step_fields [simp]:
  "desktop_window (fold (enum_step l) hs s) = desktop_window s"
  "current_process_id (fold (enum_step l) hs s) = current_process_id s"
  "top_level_windows (fold (enum_step l) hs s) = top_level_windows s"
  "g_isDarkMode (fold (enum_step l) hs s) = g_isDarkMode s"
  "g_ShouldSystemUseDarkMode (fold (enum_step l) hs s) = g_ShouldSystemUseDarkMode s"
  "isExcluded (fold (enum_step l) hs s) = isExcluded s"
  "eligible (fold (enum_step l) hs s) = eligible s"
  "dwm_ok (fold (enum_step l) hs s) = dwm_ok s"
  "in_scope (fold (enum_step l) hs s) = in_scope s"
  by (induction hs arbitrary: s; simp)+

lemma ApplyToAllWindows_fields [simp]:
  "desktop_window (ApplyToAllWindows b s) = desktop_window s"
  "current_process_id (ApplyToAllWindows b s) = current_process_id s"
  "top_level_windows (ApplyToAllWindows b s) = top_level_windows s"
  "g_isDarkMode (ApplyToAllWindows b s) = g_isDarkMode s"
  "g_ShouldSystemUseDarkMode (ApplyToAllWindows b s) = g_ShouldSystemUseDarkMode s"
  "isExcluded (ApplyToAllWindows b s) = isExcluded s"
  "eligible (ApplyToAllWindows b s) = eligible s"
  "dwm_ok (ApplyToAllWindows b s) = dwm_ok s"
  "in_scope (ApplyToAllWindows b s) = in_scope s"
  by (simp_all add: ApplyToAllWindows_fold)

lemma attr_set_calls_enum_step:
  "attr_set_calls h (trace (enum_step l h' s)) =
     attr_set_calls h (trace s) + (if h = h' \<and> in_scope s h \<and> eligible s h then 1 else 0)"
  by (simp add: enum_step_eq attr_set_calls_ApplyDarkMode)

lemma attr_set_calls_fold:
  "attr_set_calls h (trace (fold (enum_step l) hs s)) =
     attr_set_calls h (trace s) + (if in_scope s h \<and> eligible s h then count_list hs h else 0)"
  by (induction hs arbitrary: s) (simp_all add: attr_set_calls_enum_step)

lemma attr_set_calls_ApplyToAllWindows:
  "attr_set_calls h (trace (ApplyToAllWindows b s)) =
     attr_set_calls h (trace s) +
     (if in_scope s h \<and> eligible s h then count_list (top_level_windows s) h else 0)"
  by (simp add: ApplyToAllWindows_fold attr_set_calls_fold) (simp add: attr_set_calls_def is_attr_set_def)

lemma touch_calls_enum_step:
  "\<not> in_scope s h \<Longrightarrow> touch_calls h (trace (enum_step l h' s)) = touch_calls h (trace s)"
  by (cases "h = h'") (simp_all add: enum_step_eq touch_calls_ApplyDarkMode)

lemma touch_calls_fold:
  "\<not> in_scope s h \<Longrightarrow> touch_calls h (trace (fold (enum_step l) hs s)) = touch_calls h (trace s)"
  by (induction hs arbitrary: s) (simp_all add: touch_calls_enum_step)

lemma calls_enum_step:
  "\<not> is_window_event e \<Longrightarrow> calls e (trace (enum_step l h s)) = calls e (trace s)"
  by (simp add: enum_step_eq calls_ApplyDarkMode)

lemma calls_fold:
  "\<not> is_window_event e \<Longrightarrow> calls e (trace (fold (enum_step l) hs s)) = calls e (trace s)"
  by (induction hs arbitrary: s) (simp_all add: calls_enum_step)

lemma windows_enum_step:
  "windows (enum_step l h s) =
     (if in_scope s h \<and> eligible s h \<and> dwm_ok s h
      then (windows s)(h \<mapsto> styled_window (ucast l) (the (windows s h))) else windows s)"
  by (simp add: enum_step_eq windows_ApplyDarkMode)

lemma windows_fold_unstyled:
  "\<not> (in_scope s h \<and> eligible s h \<and> dwm_ok s h) \<Longrightarrow>
     windows (fold (enum_step l) hs s) h = windows s h"
  by (induction hs arbitrary: s) (auto simp add: windows_enum_step)

lemma window_core_styled [simp]: "window_core (styled_window b w) = window_core w"
  by (simp add: window_core_def styled_window_def)



lemma dark_enum_step:
  "map_option w_immersive_dark (windows (enum_step l h s) h') =
     (if h' = h \<and> in_scope s h \<and> eligible s h \<and> dwm_ok s h
      then Some ((ucast l :: win_bool) \<noteq> 0)
      else map_option w_immersive_dark (windows s h'))"
  by (auto simp add: windows_enum_step styled_window_def)

lemma dark_fold:
  "map_option w_immersive_dark (windows (fold (enum_step l) hs s) h) =
     (if h \<in> set hs \<and> in_scope s h \<and> eligible s h \<and> dwm_ok s h
      then Some ((ucast l :: win_bool) \<noteq> 0)
      else map_option w_immersive_dark (windows s h))"
proof (induction hs arbitrary: s)
  case Nil
  show ?case by simp
next
  case (Cons a hs)
  show ?case by (auto simp add: Cons.IH dark_enum_step)
qed

lemma dark_ApplyToAllWindows:
  "map_option w_immersive_dark (windows (ApplyToAllWindows b s) h) =
     (if h \<in> set (top_level_windows s) \<and> in_scope s h \<and> eligible s h \<and> dwm_ok s h
      then Some (b \<noteq> 0)
      else map_option w_immersive_dark (windows s h))"
  by (simp add: ApplyToAllWindows_fold dark_fold ucast_scast_BOOL)


subsection \<open>The theme oracle and the gate\<close>

lemma read_AppsUseLightTheme_eq:
  "read_AppsUseLightTheme s = (registry_read s, emits (registry_events s) s)"
  by (simp add: read_AppsUseLightTheme_def registry_read_def registry_events_def emits_def
      RegOpenKeyExW_def RegQueryValueExW_def RegCloseKey_def emit_def split: option.splits)

lemma resolve_eq:
  "resolve_ShouldSystemUseDarkMode s =
     (if g_ShouldSystemUseDarkMode s \<noteq> 0 then s
      else if uxtheme_handle s = 0 then emits [Ev_GetModuleHandleW Uxtheme_dll] s
      else s\<lparr>g_ShouldSystemUseDarkMode := uxtheme_ordinal_138 s,
             trace := trace s @ [Ev_GetModuleHandleW Uxtheme_dll, Ev_GetProcAddress Uxtheme_dll]\<rparr>)"
  by (simp add: resolve_ShouldSystemUseDarkMode_def GetModuleHandleW_def GetProcAddress_def
      emit_def emits_def)

lemmas IsSystemDarkMode_unfold =
  IsSystemDarkMode_def read_AppsUseLightTheme_eq resolve_eq probe_pointer_def
  call_ShouldSystemUseDarkMode_def emit_def emits_def Let_def

lemma IsSystemDarkMode_fst:
  "fst (IsSystemDarkMode s) =
     (case registry_read s of
        Some v \<Rightarrow> bool_to_BOOL (v = 0)
      | None \<Rightarrow> if probe_pointer s \<noteq> 0 then bool_to_BOOL (ShouldSystemUseDarkMode_result s \<noteq> 0)
                else 0)"
  by (simp add: IsSystemDarkMode_unfold split: option.splits)

lemma IsSystemDarkMode_pointer:
  "g_ShouldSystemUseDarkMode (snd (IsSystemDarkMode s)) =
     (case registry_read s of Some v \<Rightarrow> g_ShouldSystemUseDarkMode s | None \<Rightarrow> probe_pointer s)"
  by (simp add: IsSystemDarkMode_unfold split: option.splits)

lemma IsSystemDarkMode_trace:
  "trace (snd (IsSystemDarkMode s)) =
     trace s @ registry_events s @
     (case registry_read s of
        Some v \<Rightarrow> []
      | None \<Rightarrow>
          (if g_ShouldSystemUseDarkMode s \<noteq> 0 then []
           else if uxtheme_handle s = 0 then [Ev_GetModuleHandleW Uxtheme_dll]
           else [Ev_GetModuleHandleW Uxtheme_dll, Ev_GetProcAddress Uxtheme_dll]) @
          (if probe_pointer s \<noteq> 0 then [Ev_ShouldSystemUseDarkMode] else []))"
  by (simp add: IsSystemDarkMode_unfold split: option.splits)

lemma IsSystemDarkMode_fields [simp]:
  "windows (snd (IsSystemDarkMode s)) = windows s"
  "desktop_window (snd (IsSystemDarkMode s)) = desktop_window s"
  "current_process_id (snd (IsSystemDarkMode s)) = current_process_id s"
  "top_level_windows (snd (IsSystemDarkMode s)) = top_level_windows s"
  "g_isDarkMode (snd (IsSystemDarkMode s)) = g_isDarkMode s"
  "isExcluded (snd (IsSystemDarkMode s)) = isExcluded s"
  "reg_key_opens (snd (IsSystemDarkMode s)) = reg_key_opens s"
  "reg_AppsUseLightTheme (snd (IsSystemDarkMode s)) = reg_AppsUseLightTheme s"
  "uxtheme_handle (snd (IsSystemDarkMode s)) = uxtheme_handle s"
  "uxtheme_ordinal_138 (snd (IsSystemDarkMode s)) = uxtheme_ordinal_138 s"
  by (simp_all add: IsSystemDarkMode_unfold split: option.splits)

lemma IsSystemDarkMode_observers [simp]:
  "eligible (snd (IsSystemDarkMode s)) = eligible s"
  "dwm_ok (snd (IsSystemDarkMode s)) = dwm_ok s"
  "in_scope (snd (IsSystemDarkMode s)) = in_scope s"
  "registry_read (snd (IsSystemDarkMode s)) = registry_read s"
  by (simp_all add: eligible_def dwm_ok_def in_scope_def registry_read_def fun_eq_iff
      cong: option.case_cong)

lemma attr_set_calls_IsSystemDarkMode [simp]:
  "attr_set_calls h (trace (snd (IsSystemDarkMode s))) = attr_set_calls h (trace s)"
  by (simp add: IsSystemDarkMode_trace split: option.splits)
     (simp add: attr_set_calls_def is_attr_set_def)

lemma probe_lookups_IsSystemDarkMode:
  "probe_lookups (snd (IsSystemDarkMode s)) =
     probe_lookups s +
     (if registry_read s = None \<and> g_ShouldSystemUseDarkMode s = 0 then 1 else 0)"
  by (simp add: probe_lookups_def IsSystemDarkMode_trace registry_events_def split: option.splits)

lemma GetModuleFileNameW_emits: "snd (GetModuleFileNameW s) = emits [Ev_GetModuleFileNameW] s"
  by (simp add: GetModuleFileNameW_def emit_emits)

lemma IsProcessExcluded_eq:
  "IsProcessExcluded s =
     (if isExcluded s \<noteq> - 1 then (isExcluded s = 1, s)
      else if exclusion_decision s then
        (True, s\<lparr>isExcluded := 1,
                 trace := trace s @ [Ev_GetModuleFileNameW,
                   Ev_Log (Log_ProcessExcluded (base_name_lower (snd (fst (GetModuleFileNameW s)))))]\<rparr>)
      else (False, s\<lparr>isExcluded := 0, trace := trace s @ [Ev_GetModuleFileNameW]\<rparr>))"
  by (auto simp add: IsProcessExcluded_def exclusion_decision_def GetModuleFileNameW_def
      Wh_Log_def emit_def Let_def split: option.splits prod.splits)

lemma IsProcessExcluded_fst:
  "fst (IsProcessExcluded s) = (if isExcluded s \<noteq> - 1 then isExcluded s = 1 else exclusion_decision s)"
  by (simp add: IsProcessExcluded_eq)

lemma IsProcessExcluded_fields [simp]:
  "windows (snd (IsProcessExcluded s)) = windows s"
  "desktop_window (snd (IsProcessExcluded s)) = desktop_window s"
  "current_process_id (snd (IsProcessExcluded s)) = current_process_id s"
  "top_level_windows (snd (IsProcessExcluded s)) = top_level_windows s"
  "g_isDarkMode (snd (IsProcessExcluded s)) = g_isDarkMode s"
  "g_ShouldSystemUseDarkMode (snd (IsProcessExcluded s)) = g_ShouldSystemUseDarkMode s"
  "reg_key_opens (snd (IsProcessExcluded s)) = reg_key_opens s"
  "reg_AppsUseLightTheme (snd (IsProcessExcluded s)) = reg_AppsUseLightTheme s"
  "uxtheme_handle (snd (IsProcessExcluded s)) = uxtheme_handle s"
  "uxtheme_ordinal_138 (snd (IsProcessExcluded s)) = uxtheme_ordinal_138 s"
  "ShouldSystemUseDarkMode_result (snd (IsProcessExcluded s)) = ShouldSystemUseDarkMode_result s"
  by (simp_all add: IsProcessExcluded_eq)

lemma IsProcessExcluded_observers [simp]:
  "eligible (snd (IsProcessExcluded s)) = eligible s"
  "dwm_ok (snd (IsProcessExcluded s)) = dwm_ok s"
  "in_scope (snd (IsProcessExcluded s)) = in_scope s"
  "registry_read (snd (IsProcessExcluded s)) = registry_read s"
  "registry_events (snd (IsProcessExcluded s)) = registry_events s"
  "probe_pointer (snd (IsProcessExcluded s)) = probe_pointer s"
  by (simp_all add: eligible_def dwm_ok_def in_scope_def registry_read_def registry_events_def
      probe_pointer_def fun_eq_iff cong: option.case_cong)

lemma IsSystemDarkMode_after_gate [simp]:
  "fst (IsSystemDarkMode (snd (IsProcessExcluded s))) = fst (IsSystemDarkMode s)"
  by (simp add: IsSystemDarkMode_fst cong: option.case_cong)

lemma attr_set_calls_IsProcessExcluded [simp]:
  "attr_set_calls h (trace (snd (IsProcessExcluded s))) = attr_set_calls h (trace s)"
  by (simp add: IsProcessExcluded_eq) (simp add: attr_set_calls_def is_attr_set_def)

lemma calls_registry_IsProcessExcluded [simp]:
  "calls Ev_RegOpenKeyExW (trace (snd (IsProcessExcluded s))) = calls Ev_RegOpenKeyExW (trace s)"
  by (simp add: IsProcessExcluded_eq)

lemma IsProcessExcluded_emits [simp]:
  "fst (IsProcessExcluded (emits es s)) = fst (IsProcessExcluded s)"
  by (simp add: IsProcessExcluded_fst)

section \<open>The theme oracle: the order of the sources\<close>

text \<open>
  Claim C2. For every state, \<^verbatim>\<open>IsSystemDarkMode\<close> answers dark (\<open>TRUE\<close>) when the registry
  read succeeds with value 0 and light (\<open>FALSE\<close>) when it succeeds with any other value,
  and in both cases returns without a lookup or a call of the probe and leaves the
  memoized pointer alone. When the read fails (the key does not open, or the query
  fails) it answers with the probe: the memoized one, or the one it resolves now. When
  there is no probe either, it answers light.
\<close>

theorem IsSystemDarkMode_sources:
  "(\<forall>v. reg_key_opens s \<and> reg_AppsUseLightTheme s = Some v \<longrightarrow>
      fst (IsSystemDarkMode s) = (if v = 0 then 1 else 0) \<and>
      calls Ev_ShouldSystemUseDarkMode (trace (snd (IsSystemDarkMode s))) =
        calls Ev_ShouldSystemUseDarkMode (trace s) \<and>
      probe_lookups (snd (IsSystemDarkMode s)) = probe_lookups s \<and>
      g_ShouldSystemUseDarkMode (snd (IsSystemDarkMode s)) = g_ShouldSystemUseDarkMode s) \<and>
   ((\<not> reg_key_opens s \<or> reg_AppsUseLightTheme s = None) \<and> probe_pointer s \<noteq> 0 \<longrightarrow>
      fst (IsSystemDarkMode s) = (if ShouldSystemUseDarkMode_result s \<noteq> 0 then 1 else 0) \<and>
      calls Ev_ShouldSystemUseDarkMode (trace (snd (IsSystemDarkMode s))) =
        Suc (calls Ev_ShouldSystemUseDarkMode (trace s))) \<and>
   ((\<not> reg_key_opens s \<or> reg_AppsUseLightTheme s = None) \<and> probe_pointer s = 0 \<longrightarrow>
      fst (IsSystemDarkMode s) = 0 \<and>
      calls Ev_ShouldSystemUseDarkMode (trace (snd (IsSystemDarkMode s))) =
        calls Ev_ShouldSystemUseDarkMode (trace s))"
  by (auto simp add: IsSystemDarkMode_fst IsSystemDarkMode_trace IsSystemDarkMode_pointer
      probe_lookups_def registry_read_def registry_events_def bool_to_BOOL_def)

theorem IsSystemDarkMode_sources_witness:
  "fst (IsSystemDarkMode example_state) = 1 \<and>
   fst (IsSystemDarkMode (example_state\<lparr>reg_AppsUseLightTheme := Some 1\<rparr>)) = 0 \<and>
   probe_lookups (snd (IsSystemDarkMode (example_state\<lparr>reg_AppsUseLightTheme := Some 1\<rparr>))) = 0 \<and>
   fst (IsSystemDarkMode (example_state\<lparr>reg_key_opens := False, uxtheme_handle := 0x7FFB00000000,
          uxtheme_ordinal_138 := 0x7FFB00004560, ShouldSystemUseDarkMode_result := 1\<rparr>)) = 1 \<and>
   fst (IsSystemDarkMode (example_state\<lparr>reg_AppsUseLightTheme := None\<rparr>)) = 0"
  using IsSystemDarkMode_sources [of example_state]
    IsSystemDarkMode_sources [of "example_state\<lparr>reg_AppsUseLightTheme := Some 1\<rparr>"]
    IsSystemDarkMode_sources [of "example_state\<lparr>reg_key_opens := False,
          uxtheme_handle := 0x7FFB00000000, uxtheme_ordinal_138 := 0x7FFB00004560,
          ShouldSystemUseDarkMode_result := 1\<rparr>"]
    IsSystemDarkMode_sources [of "example_state\<lparr>reg_AppsUseLightTheme := None\<rparr>"]
  by (simp add: example_state_def probe_pointer_def probe_lookups_def)

section \<open>The theme oracle: resolving the probe\<close>

text \<open>
  Claim C7, as the spec states it, fails: a resolution that fails is not remembered. With
  the registry read failing and uxtheme.dll not loaded, two calls in a row look the
  module up twice.
\<close>

theorem probe_resolution_retried_counterexample:
  "g_ShouldSystemUseDarkMode (snd (IsSystemDarkMode (example_state\<lparr>reg_key_opens := False\<rparr>))) = 0 \<and>
   \<not> probe_lookups
       (snd (IsSystemDarkMode (snd (IsSystemDarkMode (example_state\<lparr>reg_key_opens := False\<rparr>)))))
     \<le> 1"
  by (simp add: probe_lookups_IsSystemDarkMode registry_read_def IsSystemDarkMode_pointer
      probe_pointer_def) (simp add: example_state_def probe_lookups_def)

text \<open>
  Claim C7, amended. The probe is looked up only by a call of \<^verbatim>\<open>IsSystemDarkMode\<close> that
  reaches the fallback while the memoized pointer is null, and once in that call. A
  pointer that is set is never looked up again and never changes, over any number of
  calls. A lookup that fails (the module is not loaded, or the ordinal is not found)
  leaves the pointer null, and every later call that reaches the fallback looks it up
  again.
\<close>

theorem probe_resolution_memoized:
  "(g_ShouldSystemUseDarkMode s \<noteq> 0 \<longrightarrow>
      probe_lookups (((snd \<circ> IsSystemDarkMode) ^^ n) s) = probe_lookups s \<and>
      g_ShouldSystemUseDarkMode (((snd \<circ> IsSystemDarkMode) ^^ n) s) = g_ShouldSystemUseDarkMode s) \<and>
   (reg_key_opens s \<and> reg_AppsUseLightTheme s \<noteq> None \<longrightarrow>
      probe_lookups (snd (IsSystemDarkMode s)) = probe_lookups s) \<and>
   (g_ShouldSystemUseDarkMode s = 0 \<and> (\<not> reg_key_opens s \<or> reg_AppsUseLightTheme s = None) \<longrightarrow>
      probe_lookups (snd (IsSystemDarkMode s)) = Suc (probe_lookups s) \<and>
      g_ShouldSystemUseDarkMode (snd (IsSystemDarkMode s)) =
        (if uxtheme_handle s = 0 then 0 else uxtheme_ordinal_138 s)) \<and>
   (g_ShouldSystemUseDarkMode s = 0 \<and> (\<not> reg_key_opens s \<or> reg_AppsUseLightTheme s = None) \<and>
    (uxtheme_handle s = 0 \<or> uxtheme_ordinal_138 s = 0) \<longrightarrow>
      probe_lookups (((snd \<circ> IsSystemDarkMode) ^^ n) s) = probe_lookups s + n \<and>
      g_ShouldSystemUseDarkMode (((snd \<circ> IsSystemDarkMode) ^^ n) s) = 0)"
proof (intro conjI impI)
  assume set: "g_ShouldSystemUseDarkMode s \<noteq> 0"
  have "probe_lookups (((snd \<circ> IsSystemDarkMode) ^^ n) s) = probe_lookups s \<and>
        g_ShouldSystemUseDarkMode (((snd \<circ> IsSystemDarkMode) ^^ n) s) = g_ShouldSystemUseDarkMode s"
    using set
    by (induction n)
       (auto simp add: probe_lookups_IsSystemDarkMode IsSystemDarkMode_pointer probe_pointer_def
         split: option.splits)
  then show "probe_lookups (((snd \<circ> IsSystemDarkMode) ^^ n) s) = probe_lookups s"
    and "g_ShouldSystemUseDarkMode (((snd \<circ> IsSystemDarkMode) ^^ n) s) = g_ShouldSystemUseDarkMode s"
    by simp_all
next
  assume "reg_key_opens s \<and> reg_AppsUseLightTheme s \<noteq> None"
  then show "probe_lookups (snd (IsSystemDarkMode s)) = probe_lookups s"
    by (simp add: probe_lookups_IsSystemDarkMode registry_read_def)
next
  assume "g_ShouldSystemUseDarkMode s = 0 \<and> (\<not> reg_key_opens s \<or> reg_AppsUseLightTheme s = None)"
  then show "probe_lookups (snd (IsSystemDarkMode s)) = Suc (probe_lookups s)"
    and "g_ShouldSystemUseDarkMode (snd (IsSystemDarkMode s)) =
        (if uxtheme_handle s = 0 then 0 else uxtheme_ordinal_138 s)"
    by (auto simp add: probe_lookups_IsSystemDarkMode IsSystemDarkMode_pointer probe_pointer_def
        registry_read_def)
next
  assume a: "g_ShouldSystemUseDarkMode s = 0 \<and> (\<not> reg_key_opens s \<or> reg_AppsUseLightTheme s = None) \<and>
    (uxtheme_handle s = 0 \<or> uxtheme_ordinal_138 s = 0)"
  have "probe_lookups (((snd \<circ> IsSystemDarkMode) ^^ n) s) = probe_lookups s + n \<and>
        g_ShouldSystemUseDarkMode (((snd \<circ> IsSystemDarkMode) ^^ n) s) = 0 \<and>
        registry_read (((snd \<circ> IsSystemDarkMode) ^^ n) s) = None \<and>
        uxtheme_handle (((snd \<circ> IsSystemDarkMode) ^^ n) s) = uxtheme_handle s \<and>
        uxtheme_ordinal_138 (((snd \<circ> IsSystemDarkMode) ^^ n) s) = uxtheme_ordinal_138 s"
    using a
    by (induction n)
       (auto simp add: probe_lookups_IsSystemDarkMode IsSystemDarkMode_pointer probe_pointer_def
         registry_read_def)
  then show "probe_lookups (((snd \<circ> IsSystemDarkMode) ^^ n) s) = probe_lookups s + n"
    and "g_ShouldSystemUseDarkMode (((snd \<circ> IsSystemDarkMode) ^^ n) s) = 0"
    by simp_all
qed

theorem probe_resolution_memoized_witness:
  "probe_lookups (((snd \<circ> IsSystemDarkMode) ^^ 3)
      (example_state\<lparr>reg_key_opens := False, g_ShouldSystemUseDarkMode := 0x7FFB00004560\<rparr>)) = 0 \<and>
   probe_lookups (snd (IsSystemDarkMode example_state)) = 0 \<and>
   probe_lookups (snd (IsSystemDarkMode (example_state\<lparr>reg_key_opens := False\<rparr>))) = 1 \<and>
   g_ShouldSystemUseDarkMode (snd (IsSystemDarkMode (example_state\<lparr>reg_key_opens := False\<rparr>))) = 0 \<and>
   probe_lookups (((snd \<circ> IsSystemDarkMode) ^^ 3) (example_state\<lparr>reg_key_opens := False\<rparr>)) = 3"
  using probe_resolution_memoized [where s = "example_state\<lparr>reg_key_opens := False,
          g_ShouldSystemUseDarkMode := 0x7FFB00004560\<rparr>" and n = 3]
    probe_resolution_memoized [where s = example_state and n = 3]
    probe_resolution_memoized [where s = "example_state\<lparr>reg_key_opens := False\<rparr>" and n = 3]
  by (simp add: example_state_def probe_lookups_def)

section \<open>The gate when the executable's name cannot be queried\<close>

text \<open>
  Claim C9. When the first call of \<^verbatim>\<open>IsProcessExcluded\<close> (the static still \<open>-1\<close>) finds
  that \<^verbatim>\<open>GetModuleFileNameW\<close> returns 0, the process is classified as not excluded and
  the static becomes 0. From then on, in whatever state the static is still 0, a call
  answers not-excluded and changes nothing: it makes no query and logs nothing.
\<close>

theorem IsProcessExcluded_query_failure:
  assumes "isExcluded s = - 1" and "fst (fst (GetModuleFileNameW s)) = 0"
  shows "\<not> fst (IsProcessExcluded s) \<and>
         isExcluded (snd (IsProcessExcluded s)) = 0 \<and>
         (\<forall>t. isExcluded t = isExcluded (snd (IsProcessExcluded s)) \<longrightarrow>
              IsProcessExcluded t = (False, t))"
proof -
  have first: "IsProcessExcluded s = (False, (snd (GetModuleFileNameW s))\<lparr>isExcluded := 0\<rparr>)"
    using assms by (auto simp add: IsProcessExcluded_def split: prod.splits)
  have later: "IsProcessExcluded t = (False, t)" if "isExcluded t = 0" for t
    using that by (simp add: IsProcessExcluded_def)
  show ?thesis
    using first later by simp
qed

theorem IsProcessExcluded_query_failure_witness:
  "\<not> fst (IsProcessExcluded (example_state\<lparr>exe_path := None\<rparr>)) \<and>
   isExcluded (snd (IsProcessExcluded (example_state\<lparr>exe_path := None\<rparr>))) = 0 \<and>
   IsProcessExcluded
     ((snd (IsProcessExcluded (example_state\<lparr>exe_path := None\<rparr>)))
        \<lparr>exe_path := Some (wide ''systemsettings.exe'')\<rparr>) =
     (False, (snd (IsProcessExcluded (example_state\<lparr>exe_path := None\<rparr>)))
        \<lparr>exe_path := Some (wide ''systemsettings.exe'')\<rparr>)"
proof -
  have a: "isExcluded (example_state\<lparr>exe_path := None\<rparr>) = - 1"
    by (simp add: example_state_def)
  have b: "fst (fst (GetModuleFileNameW (example_state\<lparr>exe_path := None\<rparr>))) = 0"
    by (simp add: GetModuleFileNameW_def)
  show ?thesis
    using IsProcessExcluded_query_failure [OF a b] by simp
qed

section \<open>The eligibility filter\<close>

text \<open>
  What \<^verbatim>\<open>IsWindowEligible\<close> tests: it answers false exactly when the handle is null, or
  is not a live window, or the style has no bit of the mask \<^verbatim>\<open>WS_CAPTION\<close>, or the
  extended style has the tool-window bit, or the style has the child bit. When it
  answers false, \<^verbatim>\<open>ApplyDarkMode\<close> makes no attribute-set call and leaves every window
  as it was.
\<close>

lemma IsWindowEligible_tests:
  "(\<not> fst (IsWindowEligible h s)) =
     (h = 0 \<or> windows s h = None \<or>
      (\<exists>w. windows s h = Some w \<and>
           (w_style w AND WS_CAPTION = 0 \<or> w_exstyle w AND WS_EX_TOOLWINDOW \<noteq> 0 \<or>
            w_style w AND WS_CHILD \<noteq> 0))) \<and>
   (\<not> fst (IsWindowEligible h s) \<longrightarrow>
      windows (ApplyDarkMode h b s) = windows s \<and>
      (\<forall>h'. attr_set_calls h' (trace (ApplyDarkMode h b s)) = attr_set_calls h' (trace s)))"
  by (auto simp add: IsWindowEligible_eq windows_ApplyDarkMode attr_set_calls_ApplyDarkMode
      eligible_def split: option.splits)

lemma IsWindowEligible_tests_examples:
  "fst (IsWindowEligible 0x1001 example_state) \<and>
   \<not> fst (IsWindowEligible 0 example_state) \<and>
   \<not> fst (IsWindowEligible 0x1007 example_state) \<and>
   \<not> fst (IsWindowEligible 0x1006 example_state) \<and>
   \<not> fst (IsWindowEligible 0x1002 example_state) \<and>
   \<not> fst (IsWindowEligible 0x1003 example_state) \<and>
   windows (ApplyDarkMode 0x1003 1 example_state) = windows example_state"
  using IsWindowEligible_tests [of "0x1001" example_state 1]
    IsWindowEligible_tests [of 0 example_state 1]
    IsWindowEligible_tests [of "0x1007" example_state 1]
    IsWindowEligible_tests [of "0x1006" example_state 1]
    IsWindowEligible_tests [of "0x1002" example_state 1]
    IsWindowEligible_tests [of "0x1003" example_state 1]
  by (simp add: example_state_def example_windows_def example_window_def
      WS_CAPTION_def WS_EX_TOOLWINDOW_def WS_CHILD_def)

text \<open>
  Claim C3 says that a window whose style lacks a caption region is not eligible, and
  the source's comment says the same ("Must have a titlebar (caption)"). The code tests
  \<^verbatim>\<open>!(style & WS_CAPTION)\<close>, which rejects only a style with neither bit of the mask. A
  live top-level popup of this process with \<^verbatim>\<open>WS_BORDER\<close> alone, and one with
  \<^verbatim>\<open>WS_DLGFRAME\<close> alone, has no caption region, yet \<^verbatim>\<open>IsWindowEligible\<close> answers true for
  it, \<^verbatim>\<open>ApplyDarkMode\<close> makes the attribute-set call on it, and \<^verbatim>\<open>ApplyToAllWindows\<close>
  turns its attribute on.
\<close>

theorem IsWindowEligible_caption_bit_alone:
  "WS_CAPTION = WS_BORDER OR WS_DLGFRAME \<and>
   \<not> has_caption_region 0x80800000 \<and>
   \<not> has_caption_region 0x80400000 \<and>
   map_option w_style (windows border_only_state 0x1009) = Some 0x80800000 \<and>
   map_option w_style (windows border_only_state 0x100A) = Some 0x80400000 \<and>
   fst (IsWindowEligible 0x1009 border_only_state) \<and>
   fst (IsWindowEligible 0x100A border_only_state) \<and>
   attr_set_calls 0x1009 (trace (ApplyDarkMode 0x1009 1 border_only_state)) = 1 \<and>
   attr_set_calls 0x100A (trace (ApplyDarkMode 0x100A 1 border_only_state)) = 1 \<and>
   map_option w_immersive_dark (windows (ApplyToAllWindows 1 border_only_state) 0x1009) = Some True \<and>
   map_option w_immersive_dark (windows (ApplyToAllWindows 1 border_only_state) 0x100A) = Some True"
  by (simp add: has_caption_region_def IsWindowEligible_eq attr_set_calls_ApplyDarkMode
      dark_ApplyToAllWindows WS_BORDER_def WS_DLGFRAME_def)
     (simp add: border_only_state_def example_state_def example_windows_def example_window_def
       eligible_def in_scope_def dwm_ok_def SUCCEEDED_def
       WS_CAPTION_def WS_EX_TOOLWINDOW_def WS_CHILD_def)

section \<open>The applicator when the compositor refuses\<close>

text \<open>
  Claim C8, as the spec states it, fails: a failed attribute-set call is not logged. The
  only log line of \<^verbatim>\<open>ApplyDarkMode\<close> is inside the success branch. On window \<open>0x1005\<close>,
  eligible and refused by the compositor, the call adds no log event.
\<close>

theorem ApplyDarkMode_failure_not_logged_counterexample:
  "fst (IsWindowEligible 0x1005 example_state) \<and>
   \<not> SUCCEEDED (fst (DwmSetWindowAttribute 0x1005 1 example_state)) \<and>
   \<not> log_calls (trace (ApplyDarkMode 0x1005 1 example_state)) > log_calls (trace example_state)"
  by (simp add: ApplyDarkMode_eq IsWindowEligible_eq eligible_def dwm_ok_def
      DwmSetWindowAttribute_def emit_def Let_def SUCCEEDED_def
      example_state_def example_windows_def example_window_def
      WS_CAPTION_def WS_EX_TOOLWINDOW_def WS_CHILD_def)
     (simp add: log_calls_def is_log_def eligibility_events_def)

text \<open>
  Claim C8, amended. When the attribute-set call inside \<^verbatim>\<open>ApplyDarkMode\<close> fails, nothing
  is logged, every window (its attribute and its redraw count included) is left as it
  was, no redraw is forced, and the call is not repeated: exactly one attribute-set call
  is made on the window.
\<close>

theorem ApplyDarkMode_failure:
  assumes "fst (IsWindowEligible h s)"
      and "\<not> SUCCEEDED (fst (DwmSetWindowAttribute h (if b \<noteq> 0 then 1 else 0) s))"
  shows "log_calls (trace (ApplyDarkMode h b s)) = log_calls (trace s) \<and>
         windows (ApplyDarkMode h b s) = windows s \<and>
         calls (Ev_SetWindowPos h) (trace (ApplyDarkMode h b s)) = calls (Ev_SetWindowPos h) (trace s) \<and>
         attr_set_calls h (trace (ApplyDarkMode h b s)) = Suc (attr_set_calls h (trace s))"
proof -
  have e: "eligible s h"
    using assms(1) by (simp add: IsWindowEligible_eq)
  have f: "\<not> dwm_ok s h"
    using assms(2) e
    by (auto simp add: DwmSetWindowAttribute_def dwm_ok_def eligible_def emit_def Let_def
        split: option.splits)
  have "ApplyDarkMode h b s =
          emits (eligibility_events s h @ [Ev_DwmSetWindowAttribute h (if b \<noteq> 0 then 1 else 0)]) s"
    using e f by (simp add: ApplyDarkMode_eq)
  then show ?thesis
    by (simp add: eligibility_events_def)
       (simp add: log_calls_def is_log_def attr_set_calls_def is_attr_set_def)
qed

theorem ApplyDarkMode_failure_witness:
  "log_calls (trace (ApplyDarkMode 0x1005 1 example_state)) = log_calls (trace example_state) \<and>
   windows (ApplyDarkMode 0x1005 1 example_state) = windows example_state \<and>
   calls (Ev_SetWindowPos 0x1005) (trace (ApplyDarkMode 0x1005 1 example_state)) =
     calls (Ev_SetWindowPos 0x1005) (trace example_state) \<and>
   attr_set_calls 0x1005 (trace (ApplyDarkMode 0x1005 1 example_state)) =
     Suc (attr_set_calls 0x1005 (trace example_state))"
proof -
  have a: "fst (IsWindowEligible 0x1005 example_state)"
    by (simp add: IsWindowEligible_eq eligible_def example_state_def example_windows_def
        example_window_def WS_CAPTION_def WS_EX_TOOLWINDOW_def WS_CHILD_def)
  have b: "\<not> SUCCEEDED (fst (DwmSetWindowAttribute 0x1005 (if (1 :: win_bool) \<noteq> 0 then 1 else 0)
             example_state))"
    by (simp add: DwmSetWindowAttribute_def emit_def Let_def SUCCEEDED_def example_state_def
        example_windows_def example_window_def)
  show ?thesis
    using ApplyDarkMode_failure [OF a b] by simp
qed

section \<open>Applying to all windows\<close>



section \<open>The scope of the enumeration\<close>

text \<open>
  Claim C5. A handle that is not a window, a window whose parent is neither absent nor
  the desktop, and a window of another process are never passed to \<^verbatim>\<open>ApplyDarkMode\<close>:
  the callback changes nothing but the trace for them, and over a whole
  \<^verbatim>\<open>ApplyToAllWindows\<close> none of the calls \<^verbatim>\<open>ApplyDarkMode\<close> makes is made on them and
  the window is as it was.
\<close>

theorem ApplyToAllWindows_scope:
  assumes "windows s h = None \<or>
           (\<exists>w. windows s h = Some w \<and>
                ((w_parent w \<noteq> 0 \<and> w_parent w \<noteq> desktop_window s) \<or>
                 w_process_id w \<noteq> current_process_id s))"
  shows "(snd (EnumWindowsProc h l s))\<lparr>trace := trace s\<rparr> = s \<and>
         touch_calls h (trace (snd (EnumWindowsProc h l s))) = touch_calls h (trace s) \<and>
         touch_calls h (trace (ApplyToAllWindows b s)) = touch_calls h (trace s) \<and>
         windows (ApplyToAllWindows b s) h = windows s h"
proof -
  have out: "\<not> in_scope s h"
    using assms by (auto simp add: in_scope_def)
  have "touch_calls h (trace (ApplyToAllWindows b s)) = touch_calls h (trace s)"
    using out by (simp add: ApplyToAllWindows_fold touch_calls_fold) (simp add: touch_calls_def touches_def)
  moreover have "windows (ApplyToAllWindows b s) h = windows s h"
    using out by (simp add: ApplyToAllWindows_fold windows_fold_unstyled)
  moreover have "(snd (EnumWindowsProc h l s))\<lparr>trace := trace s\<rparr> = s"
    using out by (simp add: EnumWindowsProc_eq emits_def)
  moreover have "touch_calls h (trace (snd (EnumWindowsProc h l s))) = touch_calls h (trace s)"
    using out by (simp add: EnumWindowsProc_eq)
  ultimately show ?thesis by simp
qed

theorem ApplyToAllWindows_scope_witness:
  "touch_calls 0x1004 (trace (ApplyToAllWindows 1 example_state)) = 0 \<and>
   windows (ApplyToAllWindows 1 example_state) 0x1004 = windows example_state 0x1004 \<and>
   touch_calls 0x1003 (trace (ApplyToAllWindows 1 example_state)) = 0 \<and>
   windows (ApplyToAllWindows 1 example_state) 0x1003 = windows example_state 0x1003"
proof -
  have a: "windows example_state 0x1004 = None \<or>
           (\<exists>w. windows example_state 0x1004 = Some w \<and>
                ((w_parent w \<noteq> 0 \<and> w_parent w \<noteq> desktop_window example_state) \<or>
                 w_process_id w \<noteq> current_process_id example_state))"
    by (simp add: example_state_def example_windows_def example_window_def)
  have b: "windows example_state 0x1003 = None \<or>
           (\<exists>w. windows example_state 0x1003 = Some w \<and>
                ((w_parent w \<noteq> 0 \<and> w_parent w \<noteq> desktop_window example_state) \<or>
                 w_process_id w \<noteq> current_process_id example_state))"
    by (simp add: example_state_def example_windows_def example_window_def)
  have t: "trace example_state = []"
    by (simp add: example_state_def)
  show ?thesis
    using ApplyToAllWindows_scope [OF a, where b = 1] ApplyToAllWindows_scope [OF b, where b = 1] t
    by simp
qed

section \<open>The default-message hook on a theme change\<close>

lemma theme_change_check_eq:
  assumes "\<not> fst (IsProcessExcluded s)"
      and "Msg = WM_DWMCOLORIZATIONCOLORCHANGED \<or> Msg = WM_SETTINGCHANGE"
  shows "theme_change_check Msg s =
     (let t = snd (IsSystemDarkMode (snd (IsProcessExcluded s))); new = fst (IsSystemDarkMode s) in
      if new \<noteq> g_isDarkMode s
      then ApplyToAllWindows new
             (emits [Ev_Log (Log_ThemeChanged (current_process_id s) (new \<noteq> 0))]
                (t\<lparr>g_isDarkMode := new\<rparr>))
      else t)"
proof -
  obtain e s1 where g: "IsProcessExcluded s = (e, s1)"
    by (cases "IsProcessExcluded s")
  obtain d t where q: "IsSystemDarkMode s1 = (d, t)"
    by (cases "IsSystemDarkMode s1")
  have s1: "s1 = snd (IsProcessExcluded s)" and e: "\<not> e"
    using g assms(1) by simp_all
  have d: "d = fst (IsSystemDarkMode s)" and t: "t = snd (IsSystemDarkMode (snd (IsProcessExcluded s)))"
    using q s1 IsSystemDarkMode_after_gate [of s] by simp_all
  have gt: "g_isDarkMode t = g_isDarkMode s" and pt: "current_process_id t = current_process_id s"
    by (simp_all add: t)
  show ?thesis
    using assms(2) e
    by (simp add: theme_change_check_def g q gt pt Wh_Log_emits Let_def)
       (simp add: d t emits_def)
qed

text \<open>
  Claim C1. In a process the gate does not exclude, on either theme-change message, the
  hook reads the theme once more (one more registry read) before it delegates. When the
  answer equals the cached \<open>g_isDarkMode\<close>, no attribute-set call is made on any window.
  When it differs, the cache takes the answer and exactly one attribute-set call is made
  on each enumerated top-level window that passes the enumeration filter (a window of
  this process whose parent is absent or the desktop) and \<^verbatim>\<open>IsWindowEligible\<close>, and none
  on any other. Each top-level window is enumerated once.
\<close>

theorem DefWindowProc_hook_theme_change:
  assumes "\<not> fst (IsProcessExcluded s)"
      and "Msg = WM_DWMCOLORIZATIONCOLORCHANGED \<or> Msg = WM_SETTINGCHANGE"
      and "distinct (top_level_windows s)"
  shows "\<exists>s'. DefWindowProc_hook orig hWnd Msg wParam lParam s = orig hWnd Msg wParam lParam s' \<and>
           calls Ev_RegOpenKeyExW (trace s') = Suc (calls Ev_RegOpenKeyExW (trace s)) \<and>
           g_isDarkMode s' = fst (IsSystemDarkMode s) \<and>
           (\<forall>h. attr_set_calls h (trace s') =
                  attr_set_calls h (trace s) +
                  (if fst (IsSystemDarkMode s) \<noteq> g_isDarkMode s \<and> h \<in> set (top_level_windows s) \<and>
                      in_scope s h \<and> fst (IsWindowEligible h s)
                   then 1 else 0))"
proof -
  define s' where "s' = theme_change_check Msg s"
  define t where "t = snd (IsSystemDarkMode (snd (IsProcessExcluded s)))"
  define new where "new = fst (IsSystemDarkMode s)"
  define u where "u = emits [Ev_Log (Log_ThemeChanged (current_process_id s) (new \<noteq> 0))]
                        (t\<lparr>g_isDarkMode := new\<rparr>)"
  have s'_eq: "s' = (if new \<noteq> g_isDarkMode s then ApplyToAllWindows new u else t)"
    unfolding s'_def t_def new_def u_def
    using theme_change_check_eq [OF assms(1,2)] by (simp add: Let_def)
  have reg_t: "calls Ev_RegOpenKeyExW (trace t) = Suc (calls Ev_RegOpenKeyExW (trace s))"
    by (simp add: t_def IsSystemDarkMode_trace registry_events_def split: option.splits)
  have attr_t: "attr_set_calls h (trace t) = attr_set_calls h (trace s)" for h
    by (simp add: t_def)
  have u_trace: "trace u = trace t @ [Ev_Log (Log_ThemeChanged (current_process_id s) (new \<noteq> 0))]"
    by (simp add: u_def)
  have u_obs: "in_scope u = in_scope s" "eligible u = eligible s"
    "top_level_windows u = top_level_windows s"
    by (simp_all add: u_def t_def in_scope_def eligible_def fun_eq_iff cong: option.case_cong)
  have reg_u: "calls Ev_RegOpenKeyExW (trace (ApplyToAllWindows new u)) =
                 Suc (calls Ev_RegOpenKeyExW (trace s))"
    by (simp add: ApplyToAllWindows_fold calls_fold is_window_event_def u_trace reg_t)
  have attr_u: "attr_set_calls h (trace (ApplyToAllWindows new u)) =
                  attr_set_calls h (trace s) +
                  (if h \<in> set (top_level_windows s) \<and> in_scope s h \<and> eligible s h then 1 else 0)" for h
    using assms(3)
    by (simp add: attr_set_calls_ApplyToAllWindows u_obs u_trace attr_t count_list_distinct)
       (simp add: attr_set_calls_def is_attr_set_def)
  have g_u: "g_isDarkMode (ApplyToAllWindows new u) = new"
    by (simp add: u_def)
  have g_t: "g_isDarkMode t = g_isDarkMode s"
    by (simp add: t_def)
  have "DefWindowProc_hook orig hWnd Msg wParam lParam s = orig hWnd Msg wParam lParam s'"
    by (simp add: DefWindowProc_hook_def s'_def)
  moreover have "calls Ev_RegOpenKeyExW (trace s') = Suc (calls Ev_RegOpenKeyExW (trace s))"
    by (simp add: s'_eq reg_t reg_u)
  moreover have "g_isDarkMode s' = fst (IsSystemDarkMode s)"
    using g_u g_t by (simp add: s'_eq new_def)
  moreover have "\<forall>h. attr_set_calls h (trace s') =
                  attr_set_calls h (trace s) +
                  (if fst (IsSystemDarkMode s) \<noteq> g_isDarkMode s \<and> h \<in> set (top_level_windows s) \<and>
                      in_scope s h \<and> fst (IsWindowEligible h s)
                   then 1 else 0)"
    using attr_u attr_t by (simp add: s'_eq IsWindowEligible_eq new_def)
  ultimately show ?thesis by blast
qed

theorem DefWindowProc_hook_theme_change_witness:
  "attr_set_calls 0x1001 (trace (snd (DefWindowProc_hook example_DefWindowProc 0x1001
       WM_SETTINGCHANGE 0 0 example_state))) = 1 \<and>
   attr_set_calls 0x1004 (trace (snd (DefWindowProc_hook example_DefWindowProc 0x1001
       WM_SETTINGCHANGE 0 0 example_state))) = 0 \<and>
   g_isDarkMode (snd (DefWindowProc_hook example_DefWindowProc 0x1001
       WM_SETTINGCHANGE 0 0 example_state)) = 1 \<and>
   attr_set_calls 0x1001 (trace (snd (DefWindowProc_hook example_DefWindowProc 0x1001
       WM_SETTINGCHANGE 0 0 (example_state\<lparr>g_isDarkMode := 1\<rparr>)))) = 0"
proof -
  have a: "\<not> fst (IsProcessExcluded (example_state\<lparr>g_isDarkMode := g\<rparr>))" for g
    by (simp add: IsProcessExcluded_fst exclusion_decision_def GetModuleFileNameW_def
        example_state_def example_path_def base_name_lower_def c_str_def wide_def backslash_def
        towlower_def excludedProcesses_def MAX_PATH_def)
  have b: "WM_SETTINGCHANGE = WM_DWMCOLORIZATIONCOLORCHANGED \<or> WM_SETTINGCHANGE = WM_SETTINGCHANGE"
    by simp
  have c: "distinct (top_level_windows (example_state\<lparr>g_isDarkMode := g\<rparr>))" for g
    by (simp add: example_state_def)
  have new: "fst (IsSystemDarkMode (example_state\<lparr>g_isDarkMode := g\<rparr>)) = 1" for g
    by (simp add: IsSystemDarkMode_fst registry_read_def bool_to_BOOL_def example_state_def)
  have own: "in_scope (example_state\<lparr>g_isDarkMode := g\<rparr>) 0x1001"
    and other: "\<not> in_scope (example_state\<lparr>g_isDarkMode := g\<rparr>) 0x1004"
    and el: "fst (IsWindowEligible 0x1001 (example_state\<lparr>g_isDarkMode := g\<rparr>))" for g
    by (simp_all add: in_scope_def IsWindowEligible_eq eligible_def example_state_def
        example_windows_def example_window_def WS_CAPTION_def WS_EX_TOOLWINDOW_def WS_CHILD_def)
  have run: "\<exists>s'. snd (DefWindowProc_hook example_DefWindowProc 0x1001 WM_SETTINGCHANGE 0 0
                 (example_state\<lparr>g_isDarkMode := g\<rparr>)) = s' \<and>
               g_isDarkMode s' = 1 \<and>
               (\<forall>h. attr_set_calls h (trace s') =
                  (if 1 \<noteq> g \<and> h \<in> set (top_level_windows (example_state\<lparr>g_isDarkMode := g\<rparr>)) \<and>
                      in_scope (example_state\<lparr>g_isDarkMode := g\<rparr>) h \<and>
                      fst (IsWindowEligible h (example_state\<lparr>g_isDarkMode := g\<rparr>))
                   then 1 else 0))" for g
    using DefWindowProc_hook_theme_change [OF a [of g] b c [of g],
        where orig = example_DefWindowProc and hWnd = "0x1001" and wParam = 0 and lParam = 0]
    by (auto simp add: example_DefWindowProc_def new) (auto simp add: example_state_def)
  have g0: "example_state\<lparr>g_isDarkMode := 0\<rparr> = example_state"
    by (simp add: example_state_def)
  show ?thesis
    using run [of 0] run [of 1] own [of 0] other [of 0] el [of 0]
    by (simp add: g0) (simp add: example_state_def)
qed

section \<open>Transparency of the two hooks\<close>

lemma eligibility_events_IsProcessExcluded [simp]:
  "eligibility_events (snd (IsProcessExcluded s)) = eligibility_events s"
  by (simp add: eligibility_events_def fun_eq_iff)

lemma NewWindowShown_eq:
  "NewWindowShown h s =
     (let s1 = snd (IsProcessExcluded s) in
      if fst (IsProcessExcluded s) \<or> h = 0 then s1
      else if windows s h = None then emits [Ev_IsWindow h] s1
      else if \<not> eligible s h then emits (Ev_IsWindow h # eligibility_events s h) s1
      else ApplyDarkMode h (g_isDarkMode s)
             (emits (Ev_IsWindow h # eligibility_events s h @
                     [Ev_Log (Log_NewWindow h (g_isDarkMode s))]) s1))"
  by (simp add: NewWindowShown_def case_prod_beta IsWindow_def IsWindowEligible_eq Wh_Log_emits
      emit_emits Let_def)

lemma NewWindowShown_g_isDarkMode [simp]: "g_isDarkMode (NewWindowShown h s) = g_isDarkMode s"
  by (simp add: NewWindowShown_eq Let_def)

lemma core_ApplyDarkMode:
  "map_option window_core (windows (ApplyDarkMode h b s) h') = map_option window_core (windows s h')"
  by (auto simp add: windows_ApplyDarkMode eligible_def split: option.splits)

lemma core_NewWindowShown:
  "map_option window_core (windows (NewWindowShown h s) h') = map_option window_core (windows s h')"
  by (simp add: NewWindowShown_eq Let_def core_ApplyDarkMode)

lemma windows_NewWindowShown_excluded:
  "fst (IsProcessExcluded s) \<Longrightarrow> windows (NewWindowShown h s) = windows s"
  by (simp add: NewWindowShown_eq Let_def)

lemma theme_change_check_excluded:
  "fst (IsProcessExcluded s) \<Longrightarrow> theme_change_check Msg s = snd (IsProcessExcluded s)"
  by (cases "IsProcessExcluded s") (simp add: theme_change_check_def)

lemma theme_change_check_other_message:
  "Msg \<noteq> WM_DWMCOLORIZATIONCOLORCHANGED \<Longrightarrow> Msg \<noteq> WM_SETTINGCHANGE \<Longrightarrow>
     theme_change_check Msg s = snd (IsProcessExcluded s)"
  by (cases "IsProcessExcluded s") (simp add: theme_change_check_def)

text \<open>
  Claim C6. The creation hook runs the original on the state and the arguments it was
  given, before anything else, and returns the original's handle whatever it is; after
  it, no window has appeared, gone or changed in anything but the dark attribute and the
  redraw count, and in an excluded process the windows are exactly as the original left
  them. The default-message hook returns what the original handler returns on the same
  arguments, run after the theme check; in an excluded process the theme check changes
  no window and no cache, and once the exclusion is cached the hook is the original.
\<close>

theorem hooks_transparent:
  "fst (NtUserCreateWindowEx_hook create_orig args s) = fst (create_orig args s) \<and>
   (\<forall>h. map_option window_core (windows (snd (NtUserCreateWindowEx_hook create_orig args s)) h) =
         map_option window_core (windows (snd (create_orig args s)) h)) \<and>
   (fst (IsProcessExcluded (snd (create_orig args s))) \<longrightarrow>
      windows (snd (NtUserCreateWindowEx_hook create_orig args s)) =
        windows (snd (create_orig args s))) \<and>
   DefWindowProc_hook def_orig hWnd Msg wParam lParam s =
     def_orig hWnd Msg wParam lParam (theme_change_check Msg s) \<and>
   (fst (IsProcessExcluded s) \<longrightarrow>
      windows (theme_change_check Msg s) = windows s \<and>
      g_isDarkMode (theme_change_check Msg s) = g_isDarkMode s) \<and>
   (isExcluded s = 1 \<longrightarrow>
      DefWindowProc_hook def_orig hWnd Msg wParam lParam s = def_orig hWnd Msg wParam lParam s \<and>
      (isExcluded (snd (create_orig args s)) = 1 \<longrightarrow>
         NtUserCreateWindowEx_hook create_orig args s = create_orig args s))"
proof -
  obtain c t where o: "create_orig args s = (c, t)"
    by (cases "create_orig args s")
  have cached: "isExcluded u = 1 \<Longrightarrow> IsProcessExcluded u = (True, u)" for u
    by (simp add: IsProcessExcluded_eq)
  have shown: "isExcluded u = 1 \<Longrightarrow> NewWindowShown h u = u" for h u
    by (simp add: NewWindowShown_def cached)
  have check: "isExcluded s = 1 \<Longrightarrow> theme_change_check Msg s = s"
    by (simp add: theme_change_check_def cached)
  show ?thesis
    by (auto simp add: NtUserCreateWindowEx_hook_def o core_NewWindowShown
        windows_NewWindowShown_excluded DefWindowProc_hook_def theme_change_check_excluded
        shown check)
qed

theorem hooks_transparent_witness:
  "fst (NtUserCreateWindowEx_hook example_create example_args example_state) = 0x1008 \<and>
   fst (NtUserCreateWindowEx_hook example_create example_args (example_state\<lparr>isExcluded := 1\<rparr>))
     = 0x1008 \<and>
   windows (snd (NtUserCreateWindowEx_hook example_create example_args
                   (example_state\<lparr>isExcluded := 1\<rparr>))) =
     windows (snd (example_create example_args (example_state\<lparr>isExcluded := 1\<rparr>))) \<and>
   fst (DefWindowProc_hook example_DefWindowProc 0x1001 WM_SETTINGCHANGE 3 4 example_state) = 7 \<and>
   DefWindowProc_hook example_DefWindowProc 0x1001 WM_SETTINGCHANGE 3 4
       (example_state\<lparr>isExcluded := 1\<rparr>) = (7, example_state\<lparr>isExcluded := 1\<rparr>)"
  using hooks_transparent [where create_orig = example_create and args = example_args
      and s = example_state and def_orig = example_DefWindowProc and hWnd = "0x1001"
      and Msg = WM_SETTINGCHANGE and wParam = 3 and lParam = 4]
    hooks_transparent [where create_orig = example_create and args = example_args
      and s = "example_state\<lparr>isExcluded := 1\<rparr>" and def_orig = example_DefWindowProc
      and hWnd = "0x1001" and Msg = WM_SETTINGCHANGE and wParam = 3 and lParam = 4]
  by (auto simp add: example_create_def example_DefWindowProc_def IsProcessExcluded_fst)

section \<open>Who writes the cached theme\<close>

lemma IsSystemDarkMode_emits [simp]:
  "fst (IsSystemDarkMode (emits es s)) = fst (IsSystemDarkMode s)"
  by (simp add: IsSystemDarkMode_fst registry_read_def probe_pointer_def emits_def
      cong: option.case_cong if_cong)

lemma Wh_SetFunctionHook_g_isDarkMode [simp]:
  "g_isDarkMode (snd (Wh_SetFunctionHook f s)) = g_isDarkMode s"
  by (simp add: Wh_SetFunctionHook_def emit_def Let_def)

lemma hook_NtUserCreateWindowEx_g_isDarkMode [simp]:
  "g_isDarkMode (snd (hook_NtUserCreateWindowEx s)) = g_isDarkMode s"
  by (simp add: hook_NtUserCreateWindowEx_def GetModuleHandleW_def GetProcAddress_def
      Wh_Log_emits emit_emits Let_def case_prod_beta)

lemma Wh_ModInit_g_isDarkMode:
  "g_isDarkMode (snd (Wh_ModInit s)) =
     (if fst (IsProcessExcluded s) then g_isDarkMode s else fst (IsSystemDarkMode s))"
  by (simp add: Wh_ModInit_def case_prod_beta Wh_Log_emits Let_def)

text \<open>
  Claim C10. The cached theme \<open>g_isDarkMode\<close> is written in two places only. The
  initialization of a non-excluded process stores the answer of \<^verbatim>\<open>IsSystemDarkMode\<close>; the
  theme check of the default-message hook stores the new answer when the gate passes,
  the message is a theme-change message and the answer differs from the cache. Every
  other function of the mod leaves it as it was: the oracle, the gate, the eligibility
  filter, \<^verbatim>\<open>ApplyDarkMode\<close>, \<^verbatim>\<open>ApplyToAllWindows\<close>, \<^verbatim>\<open>NewWindowShown\<close>, the creation hook (after
  the original has run) and the other two lifecycle callbacks.
\<close>

theorem g_isDarkMode_writers:
  "g_isDarkMode (snd (Wh_ModInit s)) =
     (if fst (IsProcessExcluded s) then g_isDarkMode s else fst (IsSystemDarkMode s)) \<and>
   g_isDarkMode (theme_change_check Msg s) =
     (if \<not> fst (IsProcessExcluded s) \<and>
         (Msg = WM_DWMCOLORIZATIONCOLORCHANGED \<or> Msg = WM_SETTINGCHANGE) \<and>
         fst (IsSystemDarkMode s) \<noteq> g_isDarkMode s
      then fst (IsSystemDarkMode s) else g_isDarkMode s) \<and>
   g_isDarkMode (snd (IsSystemDarkMode s)) = g_isDarkMode s \<and>
   g_isDarkMode (snd (IsProcessExcluded s)) = g_isDarkMode s \<and>
   g_isDarkMode (snd (IsWindowEligible h s)) = g_isDarkMode s \<and>
   g_isDarkMode (ApplyDarkMode h b s) = g_isDarkMode s \<and>
   g_isDarkMode (ApplyToAllWindows b s) = g_isDarkMode s \<and>
   g_isDarkMode (NewWindowShown h s) = g_isDarkMode s \<and>
   g_isDarkMode (snd (NtUserCreateWindowEx_hook create_orig args s)) =
     g_isDarkMode (snd (create_orig args s)) \<and>
   g_isDarkMode (Wh_ModAfterInit s) = g_isDarkMode s \<and>
   g_isDarkMode (Wh_ModUninit s) = g_isDarkMode s"
proof -
  have check: "g_isDarkMode (theme_change_check Msg s) =
     (if \<not> fst (IsProcessExcluded s) \<and>
         (Msg = WM_DWMCOLORIZATIONCOLORCHANGED \<or> Msg = WM_SETTINGCHANGE) \<and>
         fst (IsSystemDarkMode s) \<noteq> g_isDarkMode s
      then fst (IsSystemDarkMode s) else g_isDarkMode s)"
  proof (cases "\<not> fst (IsProcessExcluded s) \<and>
         (Msg = WM_DWMCOLORIZATIONCOLORCHANGED \<or> Msg = WM_SETTINGCHANGE)")
    case True
    then show ?thesis
      using theme_change_check_eq [of s Msg] by (simp add: Let_def)
  next
    case False
    then have "theme_change_check Msg s = snd (IsProcessExcluded s)"
      using theme_change_check_excluded [of s Msg] theme_change_check_other_message [of Msg s]
      by blast
    then show ?thesis
      using False by auto
  qed
  have after: "g_isDarkMode (Wh_ModAfterInit s) = g_isDarkMode s"
    by (cases "IsProcessExcluded s")
       (auto simp add: Wh_ModAfterInit_def Wh_Log_emits Let_def dest: arg_cong [where f = snd])
  have uninit: "g_isDarkMode (Wh_ModUninit s) = g_isDarkMode s"
    by (cases "IsProcessExcluded s")
       (auto simp add: Wh_ModUninit_def Wh_Log_emits Let_def dest: arg_cong [where f = snd])
  have create: "g_isDarkMode (snd (NtUserCreateWindowEx_hook create_orig args s)) =
     g_isDarkMode (snd (create_orig args s))"
    by (cases "create_orig args s") (simp add: NtUserCreateWindowEx_hook_def)
  show ?thesis
    using check after uninit create
    by (simp add: Wh_ModInit_g_isDarkMode IsWindowEligible_eq)
qed

theorem g_isDarkMode_writers_witness:
  "g_isDarkMode (snd (Wh_ModInit example_state)) = 1 \<and>
   g_isDarkMode (theme_change_check WM_SETTINGCHANGE example_state) = 1 \<and>
   g_isDarkMode (theme_change_check 0x000F example_state) = 0 \<and>
   g_isDarkMode (ApplyToAllWindows 1 example_state) = 0 \<and>
   g_isDarkMode (NewWindowShown 0x1001 example_state) = 0 \<and>
   g_isDarkMode (Wh_ModUninit (example_state\<lparr>g_isDarkMode := 1\<rparr>)) = 1"
  using g_isDarkMode_writers [where s = example_state and Msg = WM_SETTINGCHANGE and b = 1
      and h = "0x1001" and create_orig = example_create and args = example_args]
    g_isDarkMode_writers [where s = example_state and Msg = "0x000F" and b = 1
      and h = "0x1001" and create_orig = example_create and args = example_args]
    g_isDarkMode_writers [where s = "example_state\<lparr>g_isDarkMode := 1\<rparr>" and Msg = "0x000F"
      and b = 1 and h = "0x1001" and create_orig = example_create and args = example_args]
  by (simp add: IsProcessExcluded_fst IsSystemDarkMode_fst registry_read_def bool_to_BOOL_def
      exclusion_decision_def GetModuleFileNameW_def WM_SETTINGCHANGE_def
      WM_DWMCOLORIZATIONCOLORCHANGED_def
      example_state_def example_path_def base_name_lower_def c_str_def wide_def backslash_def
      towlower_def excludedProcesses_def MAX_PATH_def)

end
